theory Spec2Isabelle
  imports Complex_Main "HOL-Library.Word"
begin

section \<open>Data model\<close>

text \<open>
  The example programs drive a vehicle through the MAVSDK library.  The library is
  not part of the repository, so every library call is an observable event of a
  run, and whatever the library answers is read from an environment.  A run of a
  function is the list of events it performs, in program order, together with the
  way it ends.

  A \<^verbatim>\<open>float\<close> literal is represented by the decimal number it is written as; the
  only floating-point arithmetic of the programs (the sine sweep of
  \<^verbatim>\<open>offb_ctrl_ned\<close>) goes through the operations of \<open>float_ops\<close>.
\<close>

type_synonym float = rat

text \<open>The result enumerations of the library: the programs only ever compare them
  with \<^verbatim>\<open>Success\<close>; any other enumerator is \<open>Failure\<close> with its number.\<close>

datatype ConnectionResult = ConnectionSuccess | ConnectionFailure nat
datatype ActionResult = ActionSuccess | ActionFailure nat
datatype OffboardResult = OffboardSuccess | OffboardFailure nat
datatype MocapResult = MocapSuccess | MocapFailure nat

datatype LandedState = Unknown | OnGround | InAir | TakingOff | Landing

record Attitude =
  roll_deg :: float
  pitch_deg :: float
  yaw_deg :: float
  thrust_value :: float

record VelocityNedYaw =
  north_m_s :: float
  east_m_s :: float
  down_m_s :: float
  yaw_deg :: float

record VelocityBodyYawspeed =
  forward_m_s :: float
  right_m_s :: float
  down_m_s :: float
  yawspeed_deg_s :: float

record PositionNedYaw =
  north_m :: float
  east_m :: float
  down_m :: float
  yaw_deg :: float

text \<open>Value initialisation \<^verbatim>\<open>T x{}\<close> sets every field to zero.\<close>

definition Attitude0 :: Attitude where
  "Attitude0 = \<lparr>roll_deg = 0, pitch_deg = 0, Attitude.yaw_deg = 0, thrust_value = 0\<rparr>"

definition VelocityNedYaw0 :: VelocityNedYaw where
  "VelocityNedYaw0 =
     \<lparr>north_m_s = 0, east_m_s = 0, VelocityNedYaw.down_m_s = 0, VelocityNedYaw.yaw_deg = 0\<rparr>"

definition VelocityBodyYawspeed0 :: VelocityBodyYawspeed where
  "VelocityBodyYawspeed0 =
     \<lparr>forward_m_s = 0, right_m_s = 0, VelocityBodyYawspeed.down_m_s = 0, yawspeed_deg_s = 0\<rparr>"

definition PositionNedYaw0 :: PositionNedYaw where
  "PositionNedYaw0 = \<lparr>north_m = 0, east_m = 0, down_m = 0, PositionNedYaw.yaw_deg = 0\<rparr>"

text \<open>The two messages of the Mocap plugin; \<open>None\<close> in a covariance matrix is
  \<^verbatim>\<open>NAN\<close>.\<close>

record AttitudePositionMocap =
  mocap_q :: "float \<times> float \<times> float \<times> float"
  mocap_position_body :: "float \<times> float \<times> float"
  mocap_covariance_matrix :: "float option list"

record VisionPositionEstimate =
  time_usec :: nat
  vision_position_body :: "float \<times> float \<times> float"
  angle_body :: "float \<times> float \<times> float"
  vision_covariance_matrix :: "float option list"

text \<open>The telemetry getters polled by \<^verbatim>\<open>offboard_read_blocking.cpp\<close>.\<close>

datatype telemetry_getter =
  position | home | attitude_quaternion | attitude_euler | attitude_angular_velocity_body
  | fixedwing_metrics | ground_truth | velocity_ned | gps_info | battery
  | actuator_control_target | flight_mode | landed_state | in_air

text \<open>What a stream insertion \<^verbatim>\<open><<\<close> writes: literal text, or a value the library
  prints.\<close>

datatype piece =
  Txt string
  | Endl
  | ConnectionResultV ConnectionResult
  | ActionResultV ActionResult
  | OffboardResultV OffboardResult
  | MocapResultV MocapResult
  | SizeV nat
  | TelemetryV telemetry_getter
  | DefaultV string

datatype ostream = Cout | Cerr

datatype event =
  Print ostream "piece list"
  | Sleep nat
  | NewMavsdk
  | AddAnyConnection string
  | SubscribeOnNewSystem
  | UnsubscribeOnNewSystem
  | NewAction nat
  | NewOffboard nat
  | NewTelemetry nat
  | NewMocap nat
  | SetAttitudePositionMocap AttitudePositionMocap
  | SetVisionPositionEstimate VisionPositionEstimate
  | ActionArm
  | ActionTakeoff
  | ActionLand
  | ActionKill
  | ActionDisarm
  | SetAttitude Attitude
  | SetVelocityNed VelocityNedYaw
  | SetVelocityBody VelocityBodyYawspeed
  | SetPositionNed PositionNedYaw
  | OffboardStart
  | OffboardStop
  | SubscribeLandedState
  | UnsubscribeLandedState
  | SubscribeHealth
  | SubscribeRcStatus
  | TelemetryGet telemetry_getter

text \<open>\<open>ActionDisarm\<close> stands for \<^verbatim>\<open>action.disarm()\<close>, which none of the programs calls;
  it is an event so that this can be said of their runs.\<close>

text \<open>How a function ends: it returns a value, the process leaves through
  \<^verbatim>\<open>exit\<close>, it blocks for ever on a future that is never fulfilled, the process is
  ended by \<^verbatim>\<open>std::terminate\<close> after an exception that nothing catches, or the fuel
  given to an unbounded polling loop ran out before the loop ended.\<close>

datatype 'a outcome = Return 'a | Exit int | Hang | Abort | OutOfFuel

type_synonym 'a run = "event list \<times> 'a outcome"

text \<open>\<^verbatim>\<open>EXIT_SUCCESS\<close> and \<^verbatim>\<open>EXIT_FAILURE\<close> of \<^verbatim>\<open><cstdlib>\<close>.\<close>

definition EXIT_SUCCESS :: int where "EXIT_SUCCESS = 0"
definition EXIT_FAILURE :: int where "EXIT_FAILURE = 1"

text \<open>The answers of the library and of the vehicle during one run.\<close>

record env =
  connection_result :: ConnectionResult
    \<comment> \<open>what \<^verbatim>\<open>add_any_connection\<close> returns\<close>
  new_system_has_autopilot :: "bool list"
    \<comment> \<open>\<^verbatim>\<open>has_autopilot()\<close> of \<^verbatim>\<open>systems().back()\<close> in each new-system callback
        that runs before the 3 second wait of \<^verbatim>\<open>get_system\<close> is over\<close>
  new_system_is_connected :: "bool list"
    \<comment> \<open>\<^verbatim>\<open>is_connected()\<close> of \<^verbatim>\<open>systems().at(0)\<close> in each run of the new-system
        callback that \<^verbatim>\<open>wait_until_discover\<close> subscribes and never cancels\<close>
  mocap_result :: MocapResult
    \<comment> \<open>what \<^verbatim>\<open>set_attitude_position_mocap\<close> returns\<close>
  vision_result :: "nat \<Rightarrow> MocapResult"
    \<comment> \<open>what the i-th \<^verbatim>\<open>set_vision_position_estimate\<close> returns\<close>
  arm_result :: ActionResult
  takeoff_result :: ActionResult
  land_result :: ActionResult
  landed_states :: "LandedState list"
    \<comment> \<open>the landed states delivered to the callback before the waits on the
        in-air future are over\<close>
  in_air_poll :: "nat \<Rightarrow> bool"
    \<comment> \<open>what the i-th \<^verbatim>\<open>telemetry.in_air()\<close> of the landing loop returns\<close>
  start_result :: OffboardResult
  stop_result :: OffboardResult

text \<open>The floating-point operations of the sine sweep.\<close>

record float_ops =
  f_mul :: "float \<Rightarrow> float \<Rightarrow> float"
  f_div :: "float \<Rightarrow> float \<Rightarrow> float"
  f_sinf :: "float \<Rightarrow> float"
  f_of_unsigned :: "32 word \<Rightarrow> float"
  f_to_unsigned :: "float \<Rightarrow> 32 word"
  f_M_PI :: float

section \<open>Sequencing\<close>

text \<open>\<open>emit evs k\<close> performs the events \<open>evs\<close> and goes on as \<open>k\<close>; \<open>call r k\<close> runs
  a callee and hands what it returns to \<open>k\<close>, unless the callee did not return.\<close>

definition emit :: "event list \<Rightarrow> 'a run \<Rightarrow> 'a run" where
  "emit evs k = (evs @ fst k, snd k)"

definition call :: "'a run \<Rightarrow> ('a \<Rightarrow> 'b run) \<Rightarrow> 'b run" where
  "call r k =
     (case snd r of
        Return v \<Rightarrow> emit (fst r) (k v)
      | Exit c \<Rightarrow> (fst r, Exit c)
      | Hang \<Rightarrow> (fst r, Hang)
      | Abort \<Rightarrow> (fst r, Abort)
      | OutOfFuel \<Rightarrow> (fst r, OutOfFuel))"

definition ret :: "'a \<Rightarrow> 'a run" where
  "ret v = ([], Return v)"

text \<open>The shared helpers of the five files that follow the newer example layout.\<close>

definition usage :: "string \<Rightarrow> event list" where
  "usage bin_name =
     [Print Cerr
        [Txt ''Usage : '', Txt bin_name, Txt '' <connection_url>\<newline>'',
         Txt ''Connection URL format should be :\<newline>'',
         Txt '' For TCP : tcp://[server_host][:server_port]\<newline>'',
         Txt '' For UDP : udp://[bind_host][:bind_port]\<newline>'',
         Txt '' For Serial : serial:///path/to/serial/dev[:baudrate]\<newline>'',
         Txt ''For example, to connect to the simulator use URL: udp://:14540\<newline>'']]"

text \<open>The new-system callback of \<^verbatim>\<open>get_system\<close>, run once for each entry: the first
  system with an autopilot unsubscribes and fulfils the promise with that system
  (here: the index of the callback).\<close>

fun on_new_system :: "bool list \<Rightarrow> nat \<Rightarrow> event list \<times> nat option" where
  "on_new_system [] i = ([], None)"
| "on_new_system (has_autopilot # rest) i =
     (if has_autopilot
      then ([Print Cout [Txt ''Discovered autopilot\<newline>''], UnsubscribeOnNewSystem], Some i)
      else on_new_system rest (Suc i))"

definition get_system :: "env \<Rightarrow> (nat option) run" where
  "get_system e =
     emit [Print Cout [Txt ''Waiting to discover system...\<newline>''], SubscribeOnNewSystem]
       (case on_new_system (new_system_has_autopilot e) 0 of
          (cb, None) \<Rightarrow> emit cb (emit [Print Cerr [Txt ''No autopilot found.\<newline>'']] (ret None))
        | (cb, Some system) \<Rightarrow> emit cb (ret (Some system)))"

section \<open>offboard\_velocity\_working.cpp\<close>

definition step_size :: float where "step_size = 1 / 100"

definition one_cycle :: "float_ops \<Rightarrow> float" where
  "one_cycle fp = f_mul fp 2 (f_M_PI fp)"

definition steps :: "float_ops \<Rightarrow> 32 word" where
  "steps fp = 2 * f_to_unsigned fp (f_div fp (one_cycle fp) step_size)"

definition north_and_back_south :: "float_ops \<Rightarrow> 32 word \<Rightarrow> event list" where
  "north_and_back_south fp i =
     (let vx = f_mul fp 5 (f_sinf fp (f_mul fp (f_of_unsigned fp i) step_size));
          north_and_back_south = VelocityNedYaw0;
          north_and_back_south = north_and_back_south\<lparr>north_m_s := vx\<rparr>;
          north_and_back_south = north_and_back_south\<lparr>VelocityNedYaw.yaw_deg := 90\<rparr>
      in [SetVelocityNed north_and_back_south, Sleep 10])"

definition offb_ctrl_ned_working :: "float_ops \<Rightarrow> env \<Rightarrow> bool run" where
  "offb_ctrl_ned_working fp e =
     (let stay = VelocityNedYaw0 in
      emit [Print Cout [Txt ''Starting Offboard velocity control in NED coordinates\<newline>''],
            SetVelocityNed stay, OffboardStart]
     (let offboard_result = start_result e in
      if offboard_result \<noteq> OffboardSuccess then
        emit [Print Cerr [Txt ''Offboard start failed: '', OffboardResultV offboard_result,
                          Txt ''\<newline>'']]
          (ret False)
      else
      let turn_east = VelocityNedYaw0;
          turn_east = turn_east\<lparr>VelocityNedYaw.yaw_deg := 90\<rparr> in
      emit [Print Cout [Txt ''Offboard started\<newline>''],
            Print Cout [Txt ''Turn to face East\<newline>''],
            SetVelocityNed turn_east, Sleep 1000,
            Print Cout [Txt ''Go North and back South\<newline>'']]
     (emit (concat (map (\<lambda>i. north_and_back_south fp (word_of_nat i)) [0..<unat (steps fp)]))
     (let turn_west = VelocityNedYaw0;
          turn_west = turn_west\<lparr>VelocityNedYaw.yaw_deg := 270\<rparr> in
      emit [Print Cout [Txt ''Turn to face West\<newline>''],
            SetVelocityNed turn_west, Sleep 2000]
     (let up_and_south = VelocityNedYaw0;
          up_and_south = up_and_south\<lparr>VelocityNedYaw.down_m_s := - 2\<rparr>;
          up_and_south = up_and_south\<lparr>VelocityNedYaw.yaw_deg := 180\<rparr> in
      emit [Print Cout [Txt ''Go up 2 m/s, turn to face South\<newline>''],
            SetVelocityNed up_and_south, Sleep 4000]
     (let down_and_north = VelocityNedYaw0;
          up_and_south = up_and_south\<lparr>VelocityNedYaw.down_m_s := 1\<rparr> in
      emit [Print Cout [Txt ''Go down 1 m/s, turn to face North\<newline>''],
            SetVelocityNed down_and_north, Sleep 4000, OffboardStop]
     (let offboard_result = stop_result e in
      if offboard_result \<noteq> OffboardSuccess then
        emit [Print Cerr [Txt ''Offboard stop failed: '', OffboardResultV offboard_result,
                          Txt ''\<newline>'']]
          (ret False)
      else
        emit [Print Cout [Txt ''Offboard stopped\<newline>'']] (ret True))))))))"

definition offb_ctrl_body_working :: "env \<Rightarrow> bool run" where
  "offb_ctrl_body_working e =
     (let stay = VelocityBodyYawspeed0 in
      emit [Print Cout [Txt ''Starting Offboard velocity control in body coordinates\<newline>''],
            SetVelocityBody stay, OffboardStart]
     (let offboard_result = start_result e in
      if offboard_result \<noteq> OffboardSuccess then
        emit [Print Cerr [Txt ''Offboard start failed: '', OffboardResultV offboard_result,
                          Txt ''\<newline>'']]
          (ret False)
      else
      let cc_and_climb = VelocityBodyYawspeed0;
          cc_and_climb = cc_and_climb\<lparr>VelocityBodyYawspeed.down_m_s := - 1\<rparr>;
          cc_and_climb = cc_and_climb\<lparr>yawspeed_deg_s := 60\<rparr> in
      emit [Print Cout [Txt ''Offboard started\<newline>''],
            Print Cout [Txt ''Turn clock-wise and climb\<newline>''],
            SetVelocityBody cc_and_climb, Sleep 5000]
     (let ccw = VelocityBodyYawspeed0;
          ccw = ccw\<lparr>VelocityBodyYawspeed.down_m_s := - 1\<rparr>;
          ccw = ccw\<lparr>yawspeed_deg_s := - 60\<rparr> in
      emit [Print Cout [Txt ''Turn back anti-clockwise\<newline>''],
            SetVelocityBody ccw, Sleep 5000,
            Print Cout [Txt ''Wait for a bit\<newline>''],
            SetVelocityBody stay, Sleep 2000]
     (let circle = VelocityBodyYawspeed0;
          circle = circle\<lparr>forward_m_s := 5\<rparr>;
          circle = circle\<lparr>yawspeed_deg_s := 30\<rparr> in
      emit [Print Cout [Txt ''Fly a circle\<newline>''],
            SetVelocityBody circle, Sleep 15000,
            Print Cout [Txt ''Wait for a bit\<newline>''],
            SetVelocityBody stay, Sleep 5000]
     (let circle = circle\<lparr>right_m_s := - 5\<rparr>;
          circle = circle\<lparr>yawspeed_deg_s := 30\<rparr> in
      emit [Print Cout [Txt ''Fly a circle sideways\<newline>''],
            SetVelocityBody circle, Sleep 15000,
            Print Cout [Txt ''Wait for a bit\<newline>''],
            SetVelocityBody stay, Sleep 8000, OffboardStop]
     (let offboard_result = stop_result e in
      if offboard_result \<noteq> OffboardSuccess then
        emit [Print Cerr [Txt ''Offboard stop failed: '', OffboardResultV offboard_result,
                          Txt ''\<newline>'']]
          (ret False)
      else
        emit [Print Cout [Txt ''Offboard stopped\<newline>'']] (ret True)))))))"

text \<open>In \<^verbatim>\<open>offb_ctrl_attitude\<close> of this file the block that calls
  \<^verbatim>\<open>offboard.stop()\<close> is commented out.\<close>

definition offb_ctrl_attitude_working :: "env \<Rightarrow> bool run" where
  "offb_ctrl_attitude_working e =
     (let roll = Attitude0;
          roll = roll\<lparr>roll_deg := 30\<rparr>;
          roll = roll\<lparr>thrust_value := 6 / 10\<rparr> in
      emit [Print Cout [Txt ''Starting Offboard attitude control\<newline>''],
            SetAttitude roll, OffboardStart]
     (let offboard_result = start_result e in
      if offboard_result \<noteq> OffboardSuccess then
        emit [Print Cerr [Txt ''Offboard start failed: '', OffboardResultV offboard_result,
                          Txt ''\<newline>'']]
          (ret False)
      else
      emit [Print Cout [Txt ''Offboard started\<newline>''],
            Print Cout [Txt ''Roll 30 degrees to the right\<newline>''],
            SetAttitude roll, Sleep 2000]
     (let roll = roll\<lparr>roll_deg := 0\<rparr> in
      emit [Print Cout [Txt ''Stay horizontal\<newline>''],
            SetAttitude roll, Sleep 1000]
     (let roll = roll\<lparr>roll_deg := - 30\<rparr> in
      emit [Print Cout [Txt ''Roll 30 degrees to the left\<newline>''],
            SetAttitude roll, Sleep 2000]
     (let roll = roll\<lparr>roll_deg := 0\<rparr> in
      emit [Print Cout [Txt ''Stay horizontal\<newline>''],
            SetAttitude roll, Sleep 2000]
       (ret True))))))"

text \<open>The landed-state callback of \<^verbatim>\<open>main\<close>, run once for each delivered state:
  the first \<^verbatim>\<open>InAir\<close> unsubscribes and fulfils the in-air promise.\<close>

fun on_landed_state :: "LandedState list \<Rightarrow> event list \<times> bool" where
  "on_landed_state [] = ([], False)"
| "on_landed_state (state # rest) =
     (if state = InAir
      then ([Print Cout [Txt ''Taking off has finished\<newline>.''], UnsubscribeLandedState], True)
      else on_landed_state rest)"

text \<open>\<^verbatim>\<open>while (telemetry.in_air()) { ... sleep_for(seconds(1)); }\<close>: the loop ends when
  the vehicle reports that it is on the ground, which it may never do.\<close>

fun landing_loop :: "nat \<Rightarrow> (nat \<Rightarrow> bool) \<Rightarrow> nat \<Rightarrow> int run \<Rightarrow> int run" where
  "landing_loop 0 poll i k = ([], OutOfFuel)"
| "landing_loop (Suc fuel) poll i k =
     emit [TelemetryGet in_air]
       (if poll i
        then emit [Print Cout [Txt ''Vehicle is landing...\<newline>''], Sleep 1000]
               (landing_loop fuel poll (Suc i) k)
        else k)"

definition main_working :: "nat \<Rightarrow> env \<Rightarrow> string \<Rightarrow> string list \<Rightarrow> int run" where
  "main_working fuel e bin_name args =
     (let argc = 1 + int (length args) in
      if argc \<noteq> 2 then emit (usage bin_name) (ret 1)
      else
      emit [NewMavsdk, AddAnyConnection (args ! 0)]
     (let connection_result = connection_result e in
      if connection_result \<noteq> ConnectionSuccess then
        emit [Print Cerr [Txt ''Connection failed: '', ConnectionResultV connection_result,
                          Txt ''\<newline>'']]
          (ret 1)
      else
      call (get_system e) (\<lambda>system.
      case system of
        None \<Rightarrow> ret 1
      | Some sys \<Rightarrow>
      emit [NewAction sys, NewOffboard sys, NewTelemetry sys,
            Print Cout [Txt ''System is ready\<newline>''], ActionArm]
     (let arm_result = arm_result e in
      if arm_result \<noteq> ActionSuccess then
        emit [Print Cerr [Txt ''Arming failed: '', ActionResultV arm_result, Txt ''\<newline>'']]
          (ret 1)
      else
      emit [Print Cout [Txt ''Armed\<newline>''], ActionTakeoff]
     (let takeoff_result = takeoff_result e in
      if takeoff_result \<noteq> ActionSuccess then
        emit [Print Cerr [Txt ''Takeoff failed: '', ActionResultV takeoff_result,
                          Txt ''\<newline>'']]
          (ret 1)
      else
      emit [SubscribeLandedState]
     (case on_landed_state (landed_states e) of (cb, in_air_reached) \<Rightarrow>
      emit cb
     (if \<not> in_air_reached then
        emit [Print Cerr [Txt ''Takeoff timed out.\<newline>'']] (ret 1)
      else
      call (offb_ctrl_attitude_working e) (\<lambda>ok.
      if \<not> ok then ret 1
      else
      emit [ActionLand]
     (let land_result = land_result e in
      if land_result \<noteq> ActionSuccess then
        emit [Print Cerr [Txt ''Landing failed: '', ActionResultV land_result,
                          Txt ''\<newline>'']]
          (ret 1)
      else
      landing_loop fuel (in_air_poll e) 0
        (emit [Print Cout [Txt ''Landed!\<newline>''], Sleep 3000,
               Print Cout [Txt ''Finished...\<newline>'']]
           (ret 0)))))))))))"

section \<open>offboard\_velocity.cpp\<close>

definition ERROR_CONSOLE_TEXT :: string where
  "ERROR_CONSOLE_TEXT = CHR 0x1B # ''[31m''"

definition NORMAL_CONSOLE_TEXT :: string where
  "NORMAL_CONSOLE_TEXT = CHR 0x1B # ''[0m''"

definition action_error_exit :: "ActionResult \<Rightarrow> string \<Rightarrow> unit run" where
  "action_error_exit result message =
     (if result \<noteq> ActionSuccess then
        ([Print Cerr [Txt ERROR_CONSOLE_TEXT, Txt message, ActionResultV result,
                      Txt NORMAL_CONSOLE_TEXT, Endl]],
         Exit EXIT_FAILURE)
      else ret ())"

definition offboard_error_exit :: "OffboardResult \<Rightarrow> string \<Rightarrow> unit run" where
  "offboard_error_exit result message =
     (if result \<noteq> OffboardSuccess then
        ([Print Cerr [Txt ERROR_CONSOLE_TEXT, Txt message, OffboardResultV result,
                      Txt NORMAL_CONSOLE_TEXT, Endl]],
         Exit EXIT_FAILURE)
      else ret ())"

definition connection_error_exit :: "ConnectionResult \<Rightarrow> string \<Rightarrow> unit run" where
  "connection_error_exit result message =
     (if result \<noteq> ConnectionSuccess then
        ([Print Cerr [Txt ERROR_CONSOLE_TEXT, Txt message, ConnectionResultV result,
                      Txt NORMAL_CONSOLE_TEXT, Endl]],
         Exit EXIT_FAILURE)
      else ret ())"

definition offboard_log :: "string \<Rightarrow> string \<Rightarrow> event list" where
  "offboard_log offb_mode msg =
     [Print Cout [Txt ''['', Txt offb_mode, Txt ''] '', Txt msg, Endl]]"

text \<open>Here too the block that calls \<^verbatim>\<open>offboard.stop()\<close> is commented out; the last
  setpoint is a zero body velocity.\<close>

definition offb_ctrl_attitude_velocity :: "env \<Rightarrow> bool run" where
  "offb_ctrl_attitude_velocity e =
     (let offb_mode = ''ATTITUDE'';
          roll = Attitude0;
          thrust_value' = Attitude0;
          roll = roll\<lparr>roll_deg := 30\<rparr>;
          roll = roll\<lparr>thrust_value := 6 / 10\<rparr> in
      emit [SetAttitude roll, OffboardStart]
     (let offboard_result = start_result e in
      call (offboard_error_exit offboard_result ''Offboard start failed'') (\<lambda>_.
      emit (offboard_log offb_mode ''Offboard started'' @ [Sleep 1000])
     (let thrust_value' = thrust_value'\<lparr>thrust_value := 1 / 10\<rparr> in
      emit (offboard_log offb_mode ''Thrust 0.1'' @ [SetAttitude thrust_value', Sleep 2000])
     (let attitude =
            \<lparr>roll_deg = 3 / 10, pitch_deg = 0, Attitude.yaw_deg = 0, thrust_value = 3 / 10\<rparr> in
      emit [SetAttitude attitude, Sleep 5000]
     (let thrust_value' = thrust_value'\<lparr>thrust_value := 5 / 10\<rparr> in
      emit (offboard_log offb_mode ''Thrust 0.5'' @ [SetAttitude thrust_value', Sleep 5000])
     (emit (offboard_log offb_mode ''ROLL 30'' @ [SetAttitude roll, Sleep 5000])
     (let roll = roll\<lparr>roll_deg := - 30\<rparr> in
      emit (offboard_log offb_mode ''ROLL -30'' @ [SetAttitude roll, Sleep 5000])
     (let roll = roll\<lparr>roll_deg := 0\<rparr> in
      emit (offboard_log offb_mode ''ROLL 0'' @ [SetAttitude roll, Sleep 2000])
     (emit [SetVelocityBody
              \<lparr>forward_m_s = 0, right_m_s = 0, VelocityBodyYawspeed.down_m_s = 0,
               yawspeed_deg_s = 0\<rparr>,
            Sleep 2000]
       (ret True)))))))))))"

text \<open>The new-system callback of \<^verbatim>\<open>wait_until_discover\<close>, run once for each entry;
  \<open>fulfilled\<close> says whether the promise has its value.  A callback that sees a
  connected system prints and calls \<^verbatim>\<open>discover_promise.set_value()\<close>.  The
  subscription is never cancelled (there is no \<^verbatim>\<open>subscribe_on_new_system(nullptr)\<close>
  here), so a second connected callback calls \<^verbatim>\<open>set_value()\<close> on the fulfilled
  promise: \<^verbatim>\<open>std::future_error\<close>, which nothing catches, and the process is
  terminated.  \<^verbatim>\<open>discover_future.wait()\<close> has no timeout: when no callback sees a
  connected system, it never returns.  The callbacks run on the library's thread;
  the model runs all of them where \<^verbatim>\<open>main\<close> waits.\<close>

fun on_new_system_connected :: "bool \<Rightarrow> bool list \<Rightarrow> unit run" where
  "on_new_system_connected fulfilled [] = (if fulfilled then ret () else ([], Hang))"
| "on_new_system_connected fulfilled (is_connected # rest) =
     (if is_connected then
        emit [Print Cout [Txt ''Discovered system'', Endl]]
          (if fulfilled then ([], Abort) else on_new_system_connected True rest)
      else on_new_system_connected fulfilled rest)"

definition wait_until_discover :: "env \<Rightarrow> unit run" where
  "wait_until_discover e =
     emit [Print Cout [Txt ''Waiting to discover system...'', Endl], SubscribeOnNewSystem]
       (on_new_system_connected False (new_system_is_connected e))"

definition usage_velocity :: "string \<Rightarrow> event list" where
  "usage_velocity bin_name =
     [Print Cout
        [Txt NORMAL_CONSOLE_TEXT, Txt ''Usage : '', Txt bin_name, Txt '' <connection_url>'', Endl,
         Txt ''Connection URL format should be :'', Endl,
         Txt '' For TCP : tcp://[server_host][:server_port]'', Endl,
         Txt '' For UDP : udp://[bind_host][:bind_port]'', Endl,
         Txt '' For Serial : serial:///path/to/serial/dev[:baudrate]'', Endl,
         Txt ''For example, to connect to the simulator use URL: udp://:14540'', Endl]]"

text \<open>The motion-capture message of \<^verbatim>\<open>main\<close>: the 21 integers of \<^verbatim>\<open>v\<close> are inserted
  at the end of the covariance matrix of the default-constructed message, which is
  empty.\<close>

definition mocap_v :: "int list" where
  "mocap_v = [1, 0, 1, 0, 0, 1, 0, 0, 0, 1, 0, 0, 0, 0, 1, 0, 0, 0, 0, 0, 1]"

definition main_velocity :: "env \<Rightarrow> string \<Rightarrow> string list \<Rightarrow> int run" where
  "main_velocity e bin_name args =
     (let argc = 1 + int (length args) in
      emit [NewMavsdk]
     (if argc = 2 then
      emit [AddAnyConnection (args ! 0)]
     (let connection_result = connection_result e in
      if connection_result \<noteq> ConnectionSuccess then
        emit [Print Cout [Txt ERROR_CONSOLE_TEXT, Txt ''Connection failed: '',
                          ConnectionResultV connection_result, Txt NORMAL_CONSOLE_TEXT, Endl]]
          (ret 1)
      else
      call (wait_until_discover e) (\<lambda>_.
      let system = 0;
          mocap_msg = \<lparr>mocap_q = (1, 0, 0, 0), mocap_position_body = (0, 0, 0),
                       mocap_covariance_matrix = []\<rparr>;
          size_before = length (mocap_covariance_matrix mocap_msg);
          mocap_msg = mocap_msg\<lparr>mocap_covariance_matrix :=
                        mocap_covariance_matrix mocap_msg @ map (\<lambda>x. Some (of_int x)) mocap_v\<rparr>;
          result = mocap_result e in
      emit [NewAction system, NewOffboard system, NewTelemetry system, NewMocap system,
            Print Cout [Txt ''Size:'', SizeV size_before],
            SetAttitudePositionMocap mocap_msg,
            Print Cout [Txt ''Mocap Status: '', MocapResultV result, Endl],
            Print Cout [Txt ''System is ready'', Endl],
            Print Cout [DefaultV ''Mocap::AngularVelocityBody''],
            Print Cout [DefaultV ''Mocap::SpeedBody''],
            Print Cout [Txt ''Arming...'', Endl],
            ActionArm]
     (let arm_result = arm_result e in
      if arm_result \<noteq> ActionSuccess then
        emit [Print Cout [Txt ERROR_CONSOLE_TEXT, Txt ''Arming failed:'', ActionResultV arm_result,
                          Txt NORMAL_CONSOLE_TEXT, Endl]]
          (ret 1)
      else
      call (offb_ctrl_attitude_velocity e) (\<lambda>ret_value.
      if ret_value = False then ret EXIT_FAILURE
      else
      emit [Print Cout [Txt ''Killing Motors''], ActionKill, Sleep 1000]
        (ret EXIT_SUCCESS)))))
      else emit (usage_velocity bin_name) (ret 1)))"

section \<open>offboard\_attitude\_control.cpp\<close>

definition offb_ctrl_attitude_control :: "env \<Rightarrow> bool run" where
  "offb_ctrl_attitude_control e =
     (let attitude_msg = Attitude0;
          attitude_msg = attitude_msg\<lparr>roll_deg := 0, pitch_deg := 0, Attitude.yaw_deg := 0,
                                      thrust_value := 1 / 10\<rparr> in
      emit [Print Cout [Txt ''Starting Offboard attitude control\<newline>''],
            SetAttitude attitude_msg, OffboardStart]
     (let offboard_result = start_result e in
      if offboard_result \<noteq> OffboardSuccess then
        emit [Print Cerr [Txt ''Offboard start failed: '', OffboardResultV offboard_result,
                          Txt ''\<newline>'']]
          (ret False)
      else
      let attitude_msg = attitude_msg\<lparr>roll_deg := 0, pitch_deg := 0, Attitude.yaw_deg := 0,
                                      thrust_value := 15 / 100\<rparr> in
      emit [Print Cout [Txt ''Offboard started\<newline>''],
            Print Cout [Txt ''Stay horizontal\<newline>''],
            SetAttitude attitude_msg, Sleep 3000]
     (let attitude_msg = attitude_msg\<lparr>roll_deg := 30, pitch_deg := 0, Attitude.yaw_deg := 0,
                                      thrust_value := 15 / 100\<rparr> in
      emit [Print Cout [Txt ''Roll 30 degrees to the left\<newline>''],
            SetAttitude attitude_msg, Sleep 1000]
     (let attitude_msg = attitude_msg\<lparr>roll_deg := 0, pitch_deg := 0, Attitude.yaw_deg := 0,
                                      thrust_value := 15 / 100\<rparr> in
      emit [Print Cout [Txt ''Roll to hover position\<newline>''],
            SetAttitude attitude_msg, Sleep 1000]
     (let attitude_msg = attitude_msg\<lparr>roll_deg := - 30, pitch_deg := 0, Attitude.yaw_deg := 0,
                                      thrust_value := 15 / 100\<rparr> in
      emit [Print Cout [Txt ''Roll 30 degrees to the right\<newline>''],
            SetAttitude attitude_msg, Sleep 1000]
     (let attitude_msg = attitude_msg\<lparr>roll_deg := 0, pitch_deg := 0, Attitude.yaw_deg := 0,
                                      thrust_value := 15 / 100\<rparr> in
      emit [Print Cout [Txt ''Stay horizontal\<newline>''],
            SetAttitude attitude_msg, Sleep 1000]
     (let attitude_msg = attitude_msg\<lparr>roll_deg := 0, pitch_deg := 0, Attitude.yaw_deg := 0,
                                      thrust_value := 2 / 10\<rparr> in
      emit [Print Cout [Txt ''Stay horizontal\<newline>''],
            SetAttitude attitude_msg, Sleep 1000]
     (let attitude_msg = attitude_msg\<lparr>roll_deg := 0, pitch_deg := 0, Attitude.yaw_deg := 0,
                                      thrust_value := 0\<rparr> in
      emit [Print Cout [Txt ''Set thrust to zero\<newline>''],
            SetAttitude attitude_msg, Sleep 2000]
       (ret True)))))))))"

definition main_attitude_control :: "env \<Rightarrow> string \<Rightarrow> string list \<Rightarrow> int run" where
  "main_attitude_control e bin_name args =
     (let argc = 1 + int (length args) in
      if argc \<noteq> 2 then emit (usage bin_name) (ret 1)
      else
      emit [NewMavsdk, AddAnyConnection (args ! 0)]
     (let connection_result = connection_result e in
      if connection_result \<noteq> ConnectionSuccess then
        emit [Print Cerr [Txt ''Connection failed: '', ConnectionResultV connection_result,
                          Txt ''\<newline>'']]
          (ret 1)
      else
      call (get_system e) (\<lambda>system.
      case system of
        None \<Rightarrow> ret 1
      | Some sys \<Rightarrow>
      emit [NewAction sys, NewOffboard sys, NewTelemetry sys,
            Print Cout [Txt ''System is ready\<newline>''], ActionArm]
     (let arm_result = arm_result e in
      if arm_result \<noteq> ActionSuccess then
        emit [Print Cerr [Txt ''Arming failed: '', ActionResultV arm_result, Txt ''\<newline>'']]
          (ret 1)
      else
      emit [Print Cout [Txt ''Armed\<newline>'']]
     (call (offb_ctrl_attitude_control e) (\<lambda>ok.
      if \<not> ok then ret 1
      else
      emit [ActionKill, Print Cout [Txt ''Killing Motors''], Sleep 2000,
            Print Cout [Txt ''Finished...\<newline>'']]
        (ret 0)))))))"

section \<open>offboard\_telemetry\_health.cpp\<close>

text \<open>The health and RC-status callbacks run on the library's thread whenever a
  sample arrives; their output is not part of the run of \<^verbatim>\<open>main\<close>.\<close>

definition main_telemetry_health :: "env \<Rightarrow> string \<Rightarrow> string list \<Rightarrow> int run" where
  "main_telemetry_health e bin_name args =
     (let argc = 1 + int (length args) in
      if argc \<noteq> 2 then emit (usage bin_name) (ret 1)
      else
      emit [NewMavsdk, AddAnyConnection (args ! 0)]
     (let connection_result = connection_result e in
      if connection_result \<noteq> ConnectionSuccess then
        emit [Print Cerr [Txt ''Connection failed: '', ConnectionResultV connection_result,
                          Txt ''\<newline>'']]
          (ret 1)
      else
      call (get_system e) (\<lambda>system.
      case system of
        None \<Rightarrow> ret 1
      | Some sys \<Rightarrow>
      emit [NewTelemetry sys, NewMocap sys,
            Print Cout [Txt ''System is ready\<newline>''], Sleep 1000,
            SubscribeHealth, SubscribeRcStatus, Sleep 3000,
            Sleep 500,
            Sleep 1000, Print Cout [Txt ''Finished...\<newline>'']]
        (ret 0))))"

section \<open>offboard\_read\_blocking.cpp\<close>

definition print_getter :: "string \<Rightarrow> telemetry_getter \<Rightarrow> event list" where
  "print_getter label g =
     [TelemetryGet g, Print Cout [Txt label, TelemetryV g, Txt ''\<newline>'']]"

definition read_telemetry :: "event list" where
  "read_telemetry =
     print_getter ''Position: '' position
     @ print_getter ''Home Position: '' home
     @ print_getter ''Attitude: '' attitude_quaternion
     @ print_getter ''Attitude: '' attitude_euler
     @ print_getter ''Angular velocity: '' attitude_angular_velocity_body
     @ print_getter ''Fixed wing metrics: '' fixedwing_metrics
     @ print_getter ''Ground Truth: '' ground_truth
     @ print_getter ''Velocity: '' velocity_ned
     @ print_getter ''GPS Info: '' gps_info
     @ print_getter ''Battery: '' battery
     @ print_getter ''Actuators: '' actuator_control_target
     @ print_getter ''Flight mode: '' flight_mode
     @ [TelemetryGet landed_state, TelemetryGet in_air,
        Print Cout [Txt ''Landed state: '', TelemetryV landed_state, Txt ''(in air: '',
                    TelemetryV in_air, Txt '')'', Txt ''\<newline>''],
        Sleep 500]"

definition main_read_blocking :: "env \<Rightarrow> string \<Rightarrow> string list \<Rightarrow> int run" where
  "main_read_blocking e bin_name args =
     (let argc = 1 + int (length args) in
      if argc \<noteq> 2 then emit (usage bin_name) (ret 1)
      else
      emit [NewMavsdk, AddAnyConnection (args ! 0)]
     (let connection_result = connection_result e in
      if connection_result \<noteq> ConnectionSuccess then
        emit [Print Cerr [Txt ''Connection failed: '', ConnectionResultV connection_result,
                          Txt ''\<newline>'']]
          (ret 1)
      else
      call (get_system e) (\<lambda>system.
      case system of
        None \<Rightarrow> ret 1
      | Some sys \<Rightarrow>
      emit [NewTelemetry sys, Print Cout [Txt ''System is ready\<newline>'']]
     (emit (concat (map (\<lambda>i. read_telemetry) [0..<10]))
     (emit [Sleep 3000, Print Cout [Txt ''Finished...\<newline>'']]
        (ret 0))))))"

section \<open>offboard\_vision.cpp\<close>

definition send_vision :: "env \<Rightarrow> VisionPositionEstimate \<Rightarrow> nat \<Rightarrow> event list" where
  "send_vision e vision_msg i =
     (let result = vision_result e i in
      [SetVisionPositionEstimate vision_msg,
       Print Cout [Txt ''Position sent'', MocapResultV result, Endl],
       Sleep 30])"

definition main_vision :: "env \<Rightarrow> string \<Rightarrow> string list \<Rightarrow> int run" where
  "main_vision e bin_name args =
     (let argc = 1 + int (length args) in
      if argc \<noteq> 2 then emit (usage bin_name) (ret 1)
      else
      emit [NewMavsdk, AddAnyConnection (args ! 0)]
     (let connection_result = connection_result e in
      if connection_result \<noteq> ConnectionSuccess then
        emit [Print Cerr [Txt ''Connection failed: '', ConnectionResultV connection_result,
                          Txt ''\<newline>'']]
          (ret 1)
      else
      call (get_system e) (\<lambda>system.
      case system of
        None \<Rightarrow> ret 1
      | Some sys \<Rightarrow>
      let v = [None];
          vision_msg = \<lparr>time_usec = 0, vision_position_body = (12 / 10, 34 / 10, 56 / 10),
                        angle_body = (0, 0, 1), vision_covariance_matrix = [None]\<rparr>;
          size_before = length (vision_covariance_matrix vision_msg);
          vision_msg = vision_msg\<lparr>vision_covariance_matrix := v\<rparr> in
      emit [NewTelemetry sys, NewMocap sys,
            Print Cout [Txt ''System is ready\<newline>''], Sleep 1000,
            Print Cout [Txt ''Size:'', SizeV size_before]]
     (emit (concat (map (send_vision e vision_msg) [0..<100]))
     (emit [Sleep 500, Sleep 1000, Print Cout [Txt ''Finished...\<newline>'']]
        (ret 0))))))"

section \<open>The position-control listing\<close>

text \<open>\<^verbatim>\<open>src/offboard_vision.cpp\<close> holds a second listing after the vision example
  (from line 127 on): a position-control example with its own \<^verbatim>\<open>offb_ctrl_ned\<close>,
  \<^verbatim>\<open>offb_ctrl_body\<close>, \<^verbatim>\<open>offb_ctrl_attitude\<close> and \<^verbatim>\<open>main\<close>.\<close>

definition offb_ctrl_ned_position :: "env \<Rightarrow> bool run" where
  "offb_ctrl_ned_position e =
     (let stay = VelocityNedYaw0 in
      emit [Print Cout [Txt ''Starting Offboard velocity control in NED coordinates\<newline>''],
            SetVelocityNed stay, OffboardStart]
     (let offboard_result = start_result e in
      if offboard_result \<noteq> OffboardSuccess then
        emit [Print Cerr [Txt ''Offboard start failed: '', OffboardResultV offboard_result,
                          Txt ''\<newline>'']]
          (ret False)
      else
      let position_msg = PositionNedYaw0;
          position_msg = position_msg\<lparr>down_m := - 2\<rparr> in
      emit [Print Cout [Txt ''Offboard started\<newline>''],
            Print Cout [Txt ''Turn to face East\<newline>''],
            Print Cout [Txt ''Go up 0.5 m east\<newline>''],
            SetPositionNed position_msg, Sleep 5000]
     (let position_msg = position_msg\<lparr>north_m := 1\<rparr> in
      emit [Print Cout [Txt ''Go up 0.5 m east\<newline>''],
            SetPositionNed position_msg, Sleep 5000]
     (let position_msg = position_msg\<lparr>east_m := 1\<rparr> in
      emit [Print Cout [Txt ''Go up 0.5 m east\<newline>''],
            SetPositionNed position_msg, Sleep 5000]
     (let position_msg = position_msg\<lparr>north_m := 0\<rparr> in
      emit [Print Cout [Txt ''Go up 0.5 m east\<newline>''],
            SetPositionNed position_msg, Sleep 5000]
     (let position_msg = position_msg\<lparr>east_m := 0\<rparr> in
      emit [Print Cout [Txt ''Go up 0.5 m east\<newline>''],
            SetPositionNed position_msg, Sleep 5000, OffboardStop]
     (let offboard_result = stop_result e in
      if offboard_result \<noteq> OffboardSuccess then
        emit [Print Cerr [Txt ''Offboard stop failed: '', OffboardResultV offboard_result,
                          Txt ''\<newline>'']]
          (ret False)
      else
        emit [Print Cout [Txt ''Offboard stopped\<newline>'']] (ret True))))))))"

definition offb_ctrl_body_position :: "env \<Rightarrow> bool run" where
  "offb_ctrl_body_position e =
     (let stay = VelocityBodyYawspeed0 in
      emit [Print Cout [Txt ''Starting Offboard velocity control in body coordinates\<newline>''],
            SetVelocityBody stay, OffboardStart]
     (let offboard_result = start_result e in
      if offboard_result \<noteq> OffboardSuccess then
        emit [Print Cerr [Txt ''Offboard start failed: '', OffboardResultV offboard_result,
                          Txt ''\<newline>'']]
          (ret False)
      else
      let cc_and_climb = VelocityBodyYawspeed0;
          cc_and_climb = cc_and_climb\<lparr>VelocityBodyYawspeed.down_m_s := - (1 / 10)\<rparr>;
          cc_and_climb = cc_and_climb\<lparr>yawspeed_deg_s := 60\<rparr> in
      emit [Print Cout [Txt ''Offboard started\<newline>''],
            Print Cout [Txt ''Turn clock-wise and climb\<newline>''],
            SetVelocityBody cc_and_climb, Sleep 5000]
     (let ccw = VelocityBodyYawspeed0;
          ccw = ccw\<lparr>VelocityBodyYawspeed.down_m_s := - (1 / 10)\<rparr>;
          ccw = ccw\<lparr>yawspeed_deg_s := - 60\<rparr> in
      emit [Print Cout [Txt ''Turn back anti-clockwise\<newline>''],
            SetVelocityBody ccw, Sleep 5000,
            Print Cout [Txt ''Wait for a bit\<newline>''],
            SetVelocityBody stay, Sleep 2000]
     (let circle = VelocityBodyYawspeed0;
          circle = circle\<lparr>forward_m_s := 5\<rparr>;
          circle = circle\<lparr>yawspeed_deg_s := 30\<rparr> in
      emit [Print Cout [Txt ''Fly a circle\<newline>''],
            SetVelocityBody circle, Sleep 15000,
            Print Cout [Txt ''Wait for a bit\<newline>''],
            SetVelocityBody stay, Sleep 5000]
     (let circle = circle\<lparr>right_m_s := - 5\<rparr>;
          circle = circle\<lparr>yawspeed_deg_s := 30\<rparr> in
      emit [Print Cout [Txt ''Fly a circle sideways\<newline>''],
            SetVelocityBody circle, Sleep 15000,
            Print Cout [Txt ''Wait for a bit\<newline>''],
            SetVelocityBody stay, Sleep 8000, OffboardStop]
     (let offboard_result = stop_result e in
      if offboard_result \<noteq> OffboardSuccess then
        emit [Print Cerr [Txt ''Offboard stop failed: '', OffboardResultV offboard_result,
                          Txt ''\<newline>'']]
          (ret False)
      else
        emit [Print Cout [Txt ''Offboard stopped\<newline>'']] (ret True)))))))"

definition offb_ctrl_attitude_position :: "env \<Rightarrow> bool run" where
  "offb_ctrl_attitude_position e =
     (let roll = Attitude0;
          roll = roll\<lparr>roll_deg := 30\<rparr>;
          roll = roll\<lparr>thrust_value := 6 / 10\<rparr> in
      emit [Print Cout [Txt ''Starting Offboard attitude control\<newline>''],
            SetAttitude roll, OffboardStart]
     (let offboard_result = start_result e in
      if offboard_result \<noteq> OffboardSuccess then
        emit [Print Cerr [Txt ''Offboard start failed: '', OffboardResultV offboard_result,
                          Txt ''\<newline>'']]
          (ret False)
      else
      emit [Print Cout [Txt ''Offboard started\<newline>''],
            Print Cout [Txt ''Roll 30 degrees to the right\<newline>''],
            SetAttitude roll, Sleep 2000]
     (let roll = roll\<lparr>roll_deg := 0\<rparr> in
      emit [Print Cout [Txt ''Stay horizontal\<newline>''],
            SetAttitude roll, Sleep 1000]
     (let roll = roll\<lparr>roll_deg := - 30\<rparr> in
      emit [Print Cout [Txt ''Roll 30 degrees to the left\<newline>''],
            SetAttitude roll, Sleep 2000]
     (let roll = roll\<lparr>roll_deg := 0\<rparr> in
      emit [Print Cout [Txt ''Stay horizontal\<newline>''],
            SetAttitude roll, Sleep 2000, OffboardStop]
     (let offboard_result = stop_result e in
      if offboard_result \<noteq> OffboardSuccess then
        emit [Print Cerr [Txt ''Offboard stop failed: '', OffboardResultV offboard_result,
                          Txt ''\<newline>'']]
          (ret False)
      else
        emit [Print Cout [Txt ''Offboard stopped\<newline>'']] (ret True)))))))"

definition main_position :: "nat \<Rightarrow> env \<Rightarrow> string \<Rightarrow> string list \<Rightarrow> int run" where
  "main_position fuel e bin_name args =
     (let argc = 1 + int (length args) in
      if argc \<noteq> 2 then emit (usage bin_name) (ret 1)
      else
      emit [NewMavsdk, AddAnyConnection (args ! 0)]
     (let connection_result = connection_result e in
      if connection_result \<noteq> ConnectionSuccess then
        emit [Print Cerr [Txt ''Connection failed: '', ConnectionResultV connection_result,
                          Txt ''\<newline>'']]
          (ret 1)
      else
      call (get_system e) (\<lambda>system.
      case system of
        None \<Rightarrow> ret 1
      | Some sys \<Rightarrow>
      emit [NewAction sys, NewOffboard sys, NewTelemetry sys,
            Print Cout [Txt ''System is ready\<newline>''], ActionArm]
     (let arm_result = arm_result e in
      if arm_result \<noteq> ActionSuccess then
        emit [Print Cerr [Txt ''Arming failed: '', ActionResultV arm_result, Txt ''\<newline>'']]
          (ret 1)
      else
      emit [Print Cout [Txt ''Armed\<newline>''], ActionTakeoff]
     (let takeoff_result = takeoff_result e in
      if takeoff_result \<noteq> ActionSuccess then
        emit [Print Cerr [Txt ''Takeoff failed: '', ActionResultV takeoff_result,
                          Txt ''\<newline>'']]
          (ret 1)
      else
      emit [Sleep 8000]
     (call (offb_ctrl_ned_position e) (\<lambda>ok.
      if \<not> ok then ret 1
      else
      emit [ActionLand]
     (let land_result = land_result e in
      if land_result \<noteq> ActionSuccess then
        emit [Print Cerr [Txt ''Landing failed: '', ActionResultV land_result,
                          Txt ''\<newline>'']]
          (ret 1)
      else
      landing_loop fuel (in_air_poll e) 0
        (emit [Print Cout [Txt ''Landed!\<newline>''], Sleep 3000,
               Print Cout [Txt ''Finished...\<newline>'']]
           (ret 0))))))))))"

section \<open>Properties of runs\<close>

text \<open>The setpoint calls: attitude, NED velocity and body velocity, and with the
  position setpoint of the position-control listing.\<close>

fun is_setpoint :: "event \<Rightarrow> bool" where
  "is_setpoint (SetAttitude a) = True"
| "is_setpoint (SetVelocityNed v) = True"
| "is_setpoint (SetVelocityBody v) = True"
| "is_setpoint ev = False"

fun is_any_setpoint :: "event \<Rightarrow> bool" where
  "is_any_setpoint (SetPositionNed p) = True"
| "is_any_setpoint ev = is_setpoint ev"

fun is_plugin_new :: "event \<Rightarrow> bool" where
  "is_plugin_new (NewAction s) = True"
| "is_plugin_new (NewOffboard s) = True"
| "is_plugin_new (NewTelemetry s) = True"
| "is_plugin_new (NewMocap s) = True"
| "is_plugin_new ev = False"

text \<open>\<open>next_after x tr\<close> is the event that follows the first \<open>x\<close> of \<open>tr\<close>.\<close>

fun next_after :: "event \<Rightarrow> event list \<Rightarrow> event option" where
  "next_after x [] = None"
| "next_after x (y # ys) =
     (if y = x then (case ys of [] \<Rightarrow> None | z # zs \<Rightarrow> Some z) else next_after x ys)"

text \<open>\<open>preceded p q seen tr\<close>: every event of \<open>tr\<close> that satisfies \<open>q\<close> comes after an
  event that satisfies \<open>p\<close> (\<open>seen\<close>: one has already occurred).\<close>

fun preceded :: "(event \<Rightarrow> bool) \<Rightarrow> (event \<Rightarrow> bool) \<Rightarrow> bool \<Rightarrow> event list \<Rightarrow> bool" where
  "preceded p q seen [] = True"
| "preceded p q seen (ev # evs) = ((q ev \<longrightarrow> seen) \<and> preceded p q (seen \<or> p ev) evs)"

text \<open>\<open>closes p q c tr\<close>: an event that satisfies \<open>p\<close> occurs in \<open>tr\<close> after the last
  event that satisfies \<open>q\<close> (\<open>c\<close>: this is so for the events read so far).\<close>

fun closes :: "(event \<Rightarrow> bool) \<Rightarrow> (event \<Rightarrow> bool) \<Rightarrow> bool \<Rightarrow> event list \<Rightarrow> bool" where
  "closes p q c [] = c"
| "closes p q c (ev # evs) =
     closes p q (if q ev then False else (c \<or> p ev)) evs"

text \<open>The calls of a run: what is left when printing and sleeping are taken away.\<close>

fun is_call :: "event \<Rightarrow> bool" where
  "is_call (Print s ps) = False"
| "is_call (Sleep ms) = False"
| "is_call ev = True"

definition calls :: "event list \<Rightarrow> event list" where
  "calls tr = filter is_call tr"

text \<open>\<open>at_most_once p seen tr\<close>: at most one event of \<open>tr\<close> satisfies \<open>p\<close> (\<open>seen\<close>: one
  has already occurred).  \<open>no_retry\<close>: none of the operations whose result the
  programs check is tried a second time.\<close>

fun at_most_once :: "(event \<Rightarrow> bool) \<Rightarrow> bool \<Rightarrow> event list \<Rightarrow> bool" where
  "at_most_once p seen [] = True"
| "at_most_once p seen (ev # evs) =
     (if p ev then \<not> seen \<and> at_most_once p True evs else at_most_once p seen evs)"

fun is_connect :: "event \<Rightarrow> bool" where
  "is_connect (AddAnyConnection url) = True"
| "is_connect ev = False"

definition no_retry :: "event list \<Rightarrow> bool" where
  "no_retry tr =
     (at_most_once is_connect False tr
      \<and> at_most_once (\<lambda>ev. ev = SubscribeOnNewSystem) False tr
      \<and> at_most_once (\<lambda>ev. ev = ActionArm) False tr
      \<and> at_most_once (\<lambda>ev. ev = ActionTakeoff) False tr
      \<and> at_most_once (\<lambda>ev. ev = SubscribeLandedState) False tr
      \<and> at_most_once (\<lambda>ev. ev = OffboardStart) False tr
      \<and> at_most_once (\<lambda>ev. ev = OffboardStop) False tr
      \<and> at_most_once (\<lambda>ev. ev = ActionLand) False tr)"

text \<open>What \<open>n\<close> rounds of the landing loop do.\<close>

definition landing_events :: "nat \<Rightarrow> event list" where
  "landing_events n =
     concat (replicate n [TelemetryGet in_air, Print Cout [Txt ''Vehicle is landing...\<newline>''],
                          Sleep 1000])"

section \<open>Concrete environments\<close>

text \<open>A run in which every call succeeds, a system with an autopilot is discovered
  by the first callback, the vehicle reports \<^verbatim>\<open>InAir\<close> after take-off and is on the
  ground at the first poll of the landing loop.\<close>

definition nominal_env :: env where
  "nominal_env =
     \<lparr>connection_result = ConnectionSuccess,
      new_system_has_autopilot = [True],
      new_system_is_connected = [True],
      mocap_result = MocapSuccess,
      vision_result = (\<lambda>i. MocapSuccess),
      arm_result = ActionSuccess,
      takeoff_result = ActionSuccess,
      land_result = ActionSuccess,
      landed_states = [InAir],
      in_air_poll = (\<lambda>i. False),
      start_result = OffboardSuccess,
      stop_result = OffboardSuccess\<rparr>"

text \<open>Floating-point operations that compute in the rationals, with 355/113 for
  \<^verbatim>\<open>M_PI\<close> and a sine that is constantly zero: one possible \<open>float_ops\<close>, used to
  run the sine sweep on a concrete input.\<close>

definition rational_float_ops :: float_ops where
  "rational_float_ops =
     \<lparr>f_mul = (\<lambda>x y. x * y), f_div = (\<lambda>x y. x / y), f_sinf = (\<lambda>x. 0),
      f_of_unsigned = (\<lambda>w. of_nat (unat w)), f_to_unsigned = (\<lambda>x. word_of_int \<lfloor>x\<rfloor>),
      f_M_PI = 355 / 113\<rparr>"

section \<open>Lemmas about the helpers\<close>

lemmas run_defs = emit_def call_def ret_def Let_def

lemma next_after_append:
  "x \<notin> set xs \<Longrightarrow> next_after x (xs @ ys) = next_after x ys"
  by (induction xs) auto

lemma preceded_append:
  "preceded p q seen (xs @ ys)
     = (preceded p q seen xs \<and> preceded p q (seen \<or> (\<exists>x \<in> set xs. p x)) ys)"
  by (induction xs arbitrary: seen) auto

lemma preceded_seen: "preceded p q True xs"
  by (induction xs) auto

lemma closes_append:
  "closes p q c (xs @ ys) = closes p q (closes p q c xs) ys"
  by (induction xs arbitrary: c) auto

lemma closes_neutral:
  "\<forall>x \<in> set xs. \<not> p x \<and> \<not> q x \<Longrightarrow> closes p q c xs = c"
  by (induction xs arbitrary: c) auto

lemma at_most_once_append:
  "at_most_once p seen (xs @ ys)
     = (at_most_once p seen xs \<and> at_most_once p (seen \<or> (\<exists>x \<in> set xs. p x)) ys)"
  by (induction xs arbitrary: seen) auto

lemma at_most_once_none: "\<forall>x \<in> set xs. \<not> p x \<Longrightarrow> at_most_once p seen xs"
  by (induction xs arbitrary: seen) auto

text \<open>The callbacks emit nothing until the awaited event arrives, so the
  discovery functions have two possible runs each.\<close>

lemma on_new_system_eq:
  "on_new_system hs i =
     (if True \<in> set hs
      then ([Print Cout [Txt ''Discovered autopilot\<newline>''], UnsubscribeOnNewSystem],
            Some (i + length (takeWhile Not hs)))
      else ([], None))"
  by (induction hs arbitrary: i) auto

lemma get_system_eq:
  "get_system e =
     (if True \<in> set (new_system_has_autopilot e)
      then ([Print Cout [Txt ''Waiting to discover system...\<newline>''], SubscribeOnNewSystem,
             Print Cout [Txt ''Discovered autopilot\<newline>''], UnsubscribeOnNewSystem],
            Return (Some (length (takeWhile Not (new_system_has_autopilot e)))))
      else ([Print Cout [Txt ''Waiting to discover system...\<newline>''], SubscribeOnNewSystem,
             Print Cerr [Txt ''No autopilot found.\<newline>'']],
            Return None))"
  by (simp add: get_system_def on_new_system_eq emit_def ret_def)

lemma on_landed_state_eq:
  "on_landed_state ss =
     (if InAir \<in> set ss
      then ([Print Cout [Txt ''Taking off has finished\<newline>.''], UnsubscribeLandedState], True)
      else ([], False))"
  by (induction ss) auto

lemma on_new_system_connected_eq:
  "on_new_system_connected fulfilled cs =
     (if fulfilled then
        (if True \<in> set cs then ([Print Cout [Txt ''Discovered system'', Endl]], Abort)
         else ([], Return ()))
      else if True \<notin> set cs then ([], Hang)
      else if count_list cs True = 1
        then ([Print Cout [Txt ''Discovered system'', Endl]], Return ())
      else ([Print Cout [Txt ''Discovered system'', Endl],
             Print Cout [Txt ''Discovered system'', Endl]], Abort))"
  by (induction cs arbitrary: fulfilled) (auto simp: emit_def ret_def count_list_0_iff)

lemma wait_until_discover_eq:
  "wait_until_discover e =
     (if True \<notin> set (new_system_is_connected e)
      then ([Print Cout [Txt ''Waiting to discover system...'', Endl], SubscribeOnNewSystem],
            Hang)
      else if count_list (new_system_is_connected e) True = 1
      then ([Print Cout [Txt ''Waiting to discover system...'', Endl], SubscribeOnNewSystem,
             Print Cout [Txt ''Discovered system'', Endl]], Return ())
      else ([Print Cout [Txt ''Waiting to discover system...'', Endl], SubscribeOnNewSystem,
             Print Cout [Txt ''Discovered system'', Endl],
             Print Cout [Txt ''Discovered system'', Endl]], Abort))"
  by (simp add: wait_until_discover_def on_new_system_connected_eq emit_def)

text \<open>The sine sweep only sends NED velocities that face East, and sleeps.\<close>

lemma sweep_events:
  "ev \<in> set (concat (map (\<lambda>i. north_and_back_south fp (word_of_nat i)) ns)) \<Longrightarrow>
     (\<exists>vx. ev = SetVelocityNed (VelocityNedYaw0\<lparr>north_m_s := vx, VelocityNedYaw.yaw_deg := 90\<rparr>))
     \<or> ev = Sleep 10"
  by (auto simp: north_and_back_south_def Let_def)

text \<open>The landing loop either runs out of fuel or hands over to what follows it;
  with more fuel than the number of polls that say "in the air" it ends.\<close>

lemma landing_events_mem:
  "x \<in> set (landing_events n) \<longleftrightarrow>
     n \<noteq> 0 \<and> (x = TelemetryGet in_air \<or> x = Print Cout [Txt ''Vehicle is landing...\<newline>'']
              \<or> x = Sleep 1000)"
  by (induction n) (auto simp: landing_events_def)

lemma landing_neutral:
  "\<not> p (TelemetryGet in_air) \<Longrightarrow> \<not> q (TelemetryGet in_air) \<Longrightarrow>
   \<not> p (Print Cout [Txt ''Vehicle is landing...\<newline>'']) \<Longrightarrow>
   \<not> q (Print Cout [Txt ''Vehicle is landing...\<newline>'']) \<Longrightarrow>
   \<not> p (Sleep 1000) \<Longrightarrow> \<not> q (Sleep 1000) \<Longrightarrow>
   closes p q c (landing_events n) = c"
  by (rule closes_neutral) (auto simp: landing_events_mem)

lemma at_most_once_landing:
  "\<not> p (TelemetryGet in_air) \<Longrightarrow> \<not> p (Print Cout [Txt ''Vehicle is landing...\<newline>'']) \<Longrightarrow>
   \<not> p (Sleep 1000) \<Longrightarrow> at_most_once p seen (landing_events n)"
  by (rule at_most_once_none) (auto simp: landing_events_mem)

lemma landing_loop_cases:
  "\<exists>n. landing_loop fuel poll i k = (landing_events n, OutOfFuel)
     \<or> landing_loop fuel poll i k = emit (landing_events n @ [TelemetryGet in_air]) k"
proof (induction fuel arbitrary: i)
  case 0
  have "landing_loop 0 poll i k = (landing_events 0, OutOfFuel)"
    by (simp add: landing_events_def)
  then show ?case by blast
next
  case (Suc fuel)
  show ?case
  proof (cases "poll i")
    case False
    then have "landing_loop (Suc fuel) poll i k = emit (landing_events 0 @ [TelemetryGet in_air]) k"
      by (simp add: landing_events_def)
    then show ?thesis by blast
  next
    case True
    from Suc.IH[of "Suc i"] obtain n where
      n: "landing_loop fuel poll (Suc i) k = (landing_events n, OutOfFuel)
          \<or> landing_loop fuel poll (Suc i) k = emit (landing_events n @ [TelemetryGet in_air]) k"
      by blast
    have "landing_loop (Suc fuel) poll i k = (landing_events (Suc n), OutOfFuel)
          \<or> landing_loop (Suc fuel) poll i k
              = emit (landing_events (Suc n) @ [TelemetryGet in_air]) k"
      using n True by (auto simp: landing_events_def emit_def)
    then show ?thesis by blast
  qed
qed

lemma landing_loop_enough_fuel:
  "\<not> poll (i + n) \<Longrightarrow> n < fuel \<Longrightarrow> snd (landing_loop fuel poll i k) = snd k"
proof (induction fuel arbitrary: i n)
  case 0
  then show ?case by simp
next
  case (Suc fuel)
  show ?case
  proof (cases "poll i")
    case False
    then show ?thesis by (simp add: emit_def)
  next
    case True
    with Suc.prems obtain m where m: "n = Suc m" by (cases n) auto
    with Suc.prems have "\<not> poll (Suc i + m)" "m < fuel" by auto
    from Suc.IH[OF this] True show ?thesis by (simp add: emit_def)
  qed
qed

text \<open>How the offboard sequences end.\<close>

lemma offb_outcomes:
  "snd (offb_ctrl_ned_working fp e)
     = Return (start_result e = OffboardSuccess \<and> stop_result e = OffboardSuccess)"
  "snd (offb_ctrl_body_working e)
     = Return (start_result e = OffboardSuccess \<and> stop_result e = OffboardSuccess)"
  "snd (offb_ctrl_attitude_working e) = Return (start_result e = OffboardSuccess)"
  "snd (offb_ctrl_attitude_control e) = Return (start_result e = OffboardSuccess)"
  "snd (offb_ctrl_ned_position e)
     = Return (start_result e = OffboardSuccess \<and> stop_result e = OffboardSuccess)"
  "snd (offb_ctrl_body_position e)
     = Return (start_result e = OffboardSuccess \<and> stop_result e = OffboardSuccess)"
  "snd (offb_ctrl_attitude_position e)
     = Return (start_result e = OffboardSuccess \<and> stop_result e = OffboardSuccess)"
  by (simp_all add: offb_ctrl_ned_working_def offb_ctrl_body_working_def
      offb_ctrl_attitude_working_def offb_ctrl_attitude_control_def offb_ctrl_ned_position_def
      offb_ctrl_body_position_def offb_ctrl_attitude_position_def run_defs)

lemma offb_velocity_outcome:
  "snd (offb_ctrl_attitude_velocity e)
     = (if start_result e = OffboardSuccess then Return True else Exit EXIT_FAILURE)"
  by (simp add: offb_ctrl_attitude_velocity_def offboard_error_exit_def offboard_log_def run_defs)

lemma snd_call:
  "snd r = Return v \<Longrightarrow> snd (call r k) = snd (k v)"
  "snd r = Exit c \<Longrightarrow> snd (call r k) = Exit c"
  by (simp_all add: call_def emit_def)

lemma snd_emit: "snd (emit evs k) = snd k"
  by (simp add: emit_def)

lemma snd_ret: "snd (ret v) = Return v"
  by (simp add: ret_def)

lemma snd_get_system:
  "snd (get_system e) =
     Return (if True \<in> set (new_system_has_autopilot e)
             then Some (length (takeWhile Not (new_system_has_autopilot e))) else None)"
  by (simp add: get_system_eq)

section \<open>How the programs run\<close>

text \<open>Arming, the setpoint sequence and what follows it, for each \<^verbatim>\<open>main\<close>.\<close>

lemma arm_velocity:
  "preceded (\<lambda>ev. ev = ActionArm) (\<lambda>ev. is_any_setpoint ev \<or> ev = OffboardStart) False
      (fst (main_velocity e bin_name args))
   \<and> (arm_result e \<noteq> ActionSuccess \<longrightarrow>
        \<not> (\<exists>ev \<in> set (fst (main_velocity e bin_name args)). is_any_setpoint ev))
   \<and> ActionDisarm \<notin> set (fst (main_velocity e bin_name args))
   \<and> (snd (main_velocity e bin_name args) = Return EXIT_SUCCESS \<longrightarrow>
        closes (\<lambda>ev. ev = ActionKill) is_any_setpoint False (fst (main_velocity e bin_name args)))"
  by (simp add: main_velocity_def wait_until_discover_eq offb_ctrl_attitude_velocity_def
      offboard_error_exit_def offboard_log_def run_defs usage_velocity_def
      EXIT_FAILURE_def EXIT_SUCCESS_def)

lemma arm_attitude_control:
  "preceded (\<lambda>ev. ev = ActionArm) (\<lambda>ev. is_any_setpoint ev \<or> ev = OffboardStart) False
      (fst (main_attitude_control e bin_name args))
   \<and> (arm_result e \<noteq> ActionSuccess \<longrightarrow>
        \<not> (\<exists>ev \<in> set (fst (main_attitude_control e bin_name args)). is_any_setpoint ev))
   \<and> ActionDisarm \<notin> set (fst (main_attitude_control e bin_name args))
   \<and> (snd (main_attitude_control e bin_name args) = Return 0 \<longrightarrow>
        closes (\<lambda>ev. ev = ActionKill) is_any_setpoint False
          (fst (main_attitude_control e bin_name args)))"
  by (simp add: main_attitude_control_def get_system_eq offb_ctrl_attitude_control_def
      run_defs usage_def)

lemma arm_working:
  "preceded (\<lambda>ev. ev = ActionArm) (\<lambda>ev. is_any_setpoint ev \<or> ev = OffboardStart) False
      (fst (main_working fuel e bin_name args))
   \<and> (arm_result e \<noteq> ActionSuccess \<longrightarrow>
        \<not> (\<exists>ev \<in> set (fst (main_working fuel e bin_name args)). is_any_setpoint ev))
   \<and> ActionDisarm \<notin> set (fst (main_working fuel e bin_name args))
   \<and> (snd (main_working fuel e bin_name args) = Return 0 \<longrightarrow>
        closes (\<lambda>ev. ev = ActionLand) is_any_setpoint False (fst (main_working fuel e bin_name args)))"
proof -
  let ?k = "([Print Cout [Txt ''Landed!\<newline>''], Sleep 3000,
             Print Cout [Txt ''Finished...\<newline>'']], Return (0::int))"
  obtain n where
    "landing_loop fuel (in_air_poll e) 0 ?k = (landing_events n, OutOfFuel)
     \<or> landing_loop fuel (in_air_poll e) 0 ?k = emit (landing_events n @ [TelemetryGet in_air]) ?k"
    using landing_loop_cases by blast
  then show ?thesis
  proof
    assume l: "landing_loop fuel (in_air_poll e) 0 ?k = (landing_events n, OutOfFuel)"
    show ?thesis
      by (simp add: main_working_def get_system_eq on_landed_state_eq
        offb_ctrl_attitude_working_def run_defs usage_def l
        preceded_append preceded_seen landing_events_mem)
  next
    assume l: "landing_loop fuel (in_air_poll e) 0 ?k
       = emit (landing_events n @ [TelemetryGet in_air]) ?k"
    show ?thesis
      by (simp add: main_working_def get_system_eq on_landed_state_eq
        offb_ctrl_attitude_working_def run_defs usage_def l
        preceded_append preceded_seen landing_events_mem closes_append landing_neutral)
  qed
qed

lemma arm_position:
  "preceded (\<lambda>ev. ev = ActionArm) (\<lambda>ev. is_any_setpoint ev \<or> ev = OffboardStart) False
      (fst (main_position fuel e bin_name args))
   \<and> (arm_result e \<noteq> ActionSuccess \<longrightarrow>
        \<not> (\<exists>ev \<in> set (fst (main_position fuel e bin_name args)). is_any_setpoint ev))
   \<and> ActionDisarm \<notin> set (fst (main_position fuel e bin_name args))
   \<and> (snd (main_position fuel e bin_name args) = Return 0 \<longrightarrow>
        closes (\<lambda>ev. ev = ActionLand) is_any_setpoint False (fst (main_position fuel e bin_name args)))"
proof -
  let ?k = "([Print Cout [Txt ''Landed!\<newline>''], Sleep 3000,
             Print Cout [Txt ''Finished...\<newline>'']], Return (0::int))"
  obtain n where
    "landing_loop fuel (in_air_poll e) 0 ?k = (landing_events n, OutOfFuel)
     \<or> landing_loop fuel (in_air_poll e) 0 ?k = emit (landing_events n @ [TelemetryGet in_air]) ?k"
    using landing_loop_cases by blast
  then show ?thesis
  proof
    assume l: "landing_loop fuel (in_air_poll e) 0 ?k = (landing_events n, OutOfFuel)"
    show ?thesis
      by (simp add: main_position_def get_system_eq
        offb_ctrl_ned_position_def run_defs usage_def l
        preceded_append preceded_seen landing_events_mem)
  next
    assume l: "landing_loop fuel (in_air_poll e) 0 ?k
       = emit (landing_events n @ [TelemetryGet in_air]) ?k"
    show ?thesis
      by (simp add: main_position_def get_system_eq
        offb_ctrl_ned_position_def run_defs usage_def l
        preceded_append preceded_seen landing_events_mem closes_append landing_neutral)
  qed
qed

lemma no_arm_telemetry:
  "ActionArm \<notin> set (fst (main_telemetry_health e bin_name args))
   \<and> ActionDisarm \<notin> set (fst (main_telemetry_health e bin_name args))
   \<and> ActionArm \<notin> set (fst (main_read_blocking e bin_name args))
   \<and> ActionDisarm \<notin> set (fst (main_read_blocking e bin_name args))
   \<and> ActionArm \<notin> set (fst (main_vision e bin_name args))
   \<and> ActionDisarm \<notin> set (fst (main_vision e bin_name args))"
  by (simp add: main_telemetry_health_def main_read_blocking_def main_vision_def get_system_eq
      run_defs usage_def read_telemetry_def print_getter_def send_vision_def)

text \<open>What a failed call leads to: the outcome, and the last call made.\<close>

lemma connection_failure:
  assumes "length args = 1" "connection_result e \<noteq> ConnectionSuccess"
  shows "snd (main_velocity e bin_name args) = Return 1
      \<and> last (calls (fst (main_velocity e bin_name args))) = AddAnyConnection (args ! 0)"
    "snd (main_working fuel e bin_name args) = Return 1
      \<and> last (calls (fst (main_working fuel e bin_name args))) = AddAnyConnection (args ! 0)"
    "snd (main_attitude_control e bin_name args) = Return 1
      \<and> last (calls (fst (main_attitude_control e bin_name args))) = AddAnyConnection (args ! 0)"
    "snd (main_telemetry_health e bin_name args) = Return 1
      \<and> last (calls (fst (main_telemetry_health e bin_name args))) = AddAnyConnection (args ! 0)"
    "snd (main_read_blocking e bin_name args) = Return 1
      \<and> last (calls (fst (main_read_blocking e bin_name args))) = AddAnyConnection (args ! 0)"
    "snd (main_vision e bin_name args) = Return 1
      \<and> last (calls (fst (main_vision e bin_name args))) = AddAnyConnection (args ! 0)"
    "snd (main_position fuel e bin_name args) = Return 1
      \<and> last (calls (fst (main_position fuel e bin_name args))) = AddAnyConnection (args ! 0)"
  using assms
  by (simp_all add: main_working_def main_attitude_control_def main_telemetry_health_def
      main_read_blocking_def main_vision_def main_position_def main_velocity_def run_defs
      calls_def)

lemma arm_failure:
  assumes "arm_result e \<noteq> ActionSuccess"
  shows "ActionArm \<in> set (fst (main_velocity e bin_name args)) \<longrightarrow>
        snd (main_velocity e bin_name args) = Return 1
      \<and> last (calls (fst (main_velocity e bin_name args))) = ActionArm"
    "ActionArm \<in> set (fst (main_working fuel e bin_name args)) \<longrightarrow>
        snd (main_working fuel e bin_name args) = Return 1
      \<and> last (calls (fst (main_working fuel e bin_name args))) = ActionArm"
    "ActionArm \<in> set (fst (main_attitude_control e bin_name args)) \<longrightarrow>
        snd (main_attitude_control e bin_name args) = Return 1
      \<and> last (calls (fst (main_attitude_control e bin_name args))) = ActionArm"
    "ActionArm \<in> set (fst (main_position fuel e bin_name args)) \<longrightarrow>
        snd (main_position fuel e bin_name args) = Return 1
      \<and> last (calls (fst (main_position fuel e bin_name args))) = ActionArm"
  using assms
  by (simp_all add: main_working_def main_attitude_control_def main_position_def
      main_velocity_def wait_until_discover_eq get_system_eq run_defs calls_def usage_def
      usage_velocity_def)

lemma start_failure:
  assumes "start_result e \<noteq> OffboardSuccess"
  shows "snd (offb_ctrl_attitude_velocity e) = Exit EXIT_FAILURE
      \<and> last (calls (fst (offb_ctrl_attitude_velocity e))) = OffboardStart"
    "snd (offb_ctrl_attitude_control e) = Return False
      \<and> last (calls (fst (offb_ctrl_attitude_control e))) = OffboardStart"
    "snd (offb_ctrl_ned_working fp e) = Return False
      \<and> last (calls (fst (offb_ctrl_ned_working fp e))) = OffboardStart"
    "snd (offb_ctrl_body_working e) = Return False
      \<and> last (calls (fst (offb_ctrl_body_working e))) = OffboardStart"
    "snd (offb_ctrl_attitude_working e) = Return False
      \<and> last (calls (fst (offb_ctrl_attitude_working e))) = OffboardStart"
    "snd (offb_ctrl_ned_position e) = Return False
      \<and> last (calls (fst (offb_ctrl_ned_position e))) = OffboardStart"
    "snd (offb_ctrl_body_position e) = Return False
      \<and> last (calls (fst (offb_ctrl_body_position e))) = OffboardStart"
    "snd (offb_ctrl_attitude_position e) = Return False
      \<and> last (calls (fst (offb_ctrl_attitude_position e))) = OffboardStart"
  using assms
  by (simp_all add: offb_ctrl_ned_working_def offb_ctrl_body_working_def
      offb_ctrl_attitude_working_def offb_ctrl_attitude_control_def offb_ctrl_ned_position_def
      offb_ctrl_body_position_def offb_ctrl_attitude_position_def offb_ctrl_attitude_velocity_def
      offboard_error_exit_def offboard_log_def run_defs calls_def)

lemma stop_failure:
  assumes "start_result e = OffboardSuccess" "stop_result e \<noteq> OffboardSuccess"
  shows "snd (offb_ctrl_ned_working fp e) = Return False
      \<and> last (calls (fst (offb_ctrl_ned_working fp e))) = OffboardStop"
    "snd (offb_ctrl_body_working e) = Return False
      \<and> last (calls (fst (offb_ctrl_body_working e))) = OffboardStop"
    "snd (offb_ctrl_ned_position e) = Return False
      \<and> last (calls (fst (offb_ctrl_ned_position e))) = OffboardStop"
    "snd (offb_ctrl_body_position e) = Return False
      \<and> last (calls (fst (offb_ctrl_body_position e))) = OffboardStop"
    "snd (offb_ctrl_attitude_position e) = Return False
      \<and> last (calls (fst (offb_ctrl_attitude_position e))) = OffboardStop"
  using assms
  by (simp_all add: offb_ctrl_ned_working_def offb_ctrl_body_working_def
      offb_ctrl_ned_position_def
      offb_ctrl_body_position_def offb_ctrl_attitude_position_def
      run_defs calls_def)

lemma mocap_only_printed:
  "snd (main_velocity (e\<lparr>mocap_result := r\<rparr>) bin_name args) = snd (main_velocity e bin_name args)
   \<and> calls (fst (main_velocity (e\<lparr>mocap_result := r\<rparr>) bin_name args))
       = calls (fst (main_velocity e bin_name args))"
  by (simp add: main_velocity_def wait_until_discover_eq offb_ctrl_attitude_velocity_def
      offboard_error_exit_def offboard_log_def run_defs calls_def usage_velocity_def)

lemma vision_only_printed:
  "snd (main_vision (e\<lparr>vision_result := r\<rparr>) bin_name args) = snd (main_vision e bin_name args)
   \<and> calls (fst (main_vision (e\<lparr>vision_result := r\<rparr>) bin_name args))
       = calls (fst (main_vision e bin_name args))"
  by (simp add: main_vision_def get_system_eq run_defs calls_def usage_def send_vision_def
      filter_concat comp_def)

text \<open>The exit status of each \<^verbatim>\<open>main\<close>, and that no checked operation is repeated.\<close>

lemma outcome_telemetry:
  "snd (main_telemetry_health e bin_name args)
     = Return (if length args = 1 \<and> connection_result e = ConnectionSuccess
                  \<and> True \<in> set (new_system_has_autopilot e) then 0 else 1)"
  "snd (main_read_blocking e bin_name args)
     = Return (if length args = 1 \<and> connection_result e = ConnectionSuccess
                  \<and> True \<in> set (new_system_has_autopilot e) then 0 else 1)"
  "snd (main_vision e bin_name args)
     = Return (if length args = 1 \<and> connection_result e = ConnectionSuccess
                  \<and> True \<in> set (new_system_has_autopilot e) then 0 else 1)"
  by (simp_all add: main_telemetry_health_def main_read_blocking_def main_vision_def
      Let_def snd_emit snd_ret snd_call snd_get_system)

lemma outcome_attitude_control:
  "snd (main_attitude_control e bin_name args)
     = Return (if length args = 1 \<and> connection_result e = ConnectionSuccess
                  \<and> True \<in> set (new_system_has_autopilot e)
                  \<and> arm_result e = ActionSuccess \<and> start_result e = OffboardSuccess
               then 0 else 1)"
  by (simp add: main_attitude_control_def Let_def snd_emit snd_ret snd_call snd_get_system
      offb_outcomes)

lemma outcome_working:
  "\<not> (length args = 1 \<and> connection_result e = ConnectionSuccess
          \<and> True \<in> set (new_system_has_autopilot e)
          \<and> arm_result e = ActionSuccess \<and> takeoff_result e = ActionSuccess
          \<and> InAir \<in> set (landed_states e)
          \<and> start_result e = OffboardSuccess \<and> land_result e = ActionSuccess)
   \<Longrightarrow> snd (main_working fuel e bin_name args) = Return 1"
  "length args = 1 \<and> connection_result e = ConnectionSuccess
          \<and> True \<in> set (new_system_has_autopilot e)
          \<and> arm_result e = ActionSuccess \<and> takeoff_result e = ActionSuccess
          \<and> InAir \<in> set (landed_states e)
          \<and> start_result e = OffboardSuccess \<and> land_result e = ActionSuccess
   \<Longrightarrow> \<not> in_air_poll e n \<Longrightarrow> n < fuel
   \<Longrightarrow> snd (main_working fuel e bin_name args) = Return 0"
  using landing_loop_enough_fuel[of "in_air_poll e" 0 n fuel]
  by (auto simp add: main_working_def Let_def snd_emit snd_ret snd_call snd_get_system offb_outcomes
      on_landed_state_eq)

lemma outcome_position:
  "\<not> (length args = 1 \<and> connection_result e = ConnectionSuccess
          \<and> True \<in> set (new_system_has_autopilot e)
          \<and> arm_result e = ActionSuccess \<and> takeoff_result e = ActionSuccess
          \<and> start_result e = OffboardSuccess \<and> stop_result e = OffboardSuccess
          \<and> land_result e = ActionSuccess)
   \<Longrightarrow> snd (main_position fuel e bin_name args) = Return 1"
  "length args = 1 \<and> connection_result e = ConnectionSuccess
          \<and> True \<in> set (new_system_has_autopilot e)
          \<and> arm_result e = ActionSuccess \<and> takeoff_result e = ActionSuccess
          \<and> start_result e = OffboardSuccess \<and> stop_result e = OffboardSuccess
          \<and> land_result e = ActionSuccess
   \<Longrightarrow> \<not> in_air_poll e n \<Longrightarrow> n < fuel
   \<Longrightarrow> snd (main_position fuel e bin_name args) = Return 0"
  using landing_loop_enough_fuel[of "in_air_poll e" 0 n fuel]
  by (auto simp add: main_position_def Let_def snd_emit snd_ret snd_call snd_get_system offb_outcomes)

lemma snd_wait_until_discover:
  "snd (wait_until_discover e) =
     (if True \<notin> set (new_system_is_connected e) then Hang
      else if count_list (new_system_is_connected e) True = 1 then Return () else Abort)"
  by (simp add: wait_until_discover_eq)

lemma snd_call_stuck:
  "snd r = Hang \<Longrightarrow> snd (call r k) = Hang"
  "snd r = Abort \<Longrightarrow> snd (call r k) = Abort"
  by (simp_all add: call_def)

lemma outcome_velocity:
  "snd (main_velocity e bin_name args)
     = (if length args \<noteq> 1 \<or> connection_result e \<noteq> ConnectionSuccess then Return 1
        else if True \<notin> set (new_system_is_connected e) then Hang
        else if count_list (new_system_is_connected e) True \<noteq> 1 then Abort
        else if arm_result e \<noteq> ActionSuccess then Return 1
        else if start_result e \<noteq> OffboardSuccess then Exit EXIT_FAILURE
        else Return EXIT_SUCCESS)"
  by (simp add: main_velocity_def Let_def snd_emit snd_ret snd_call snd_call_stuck
      snd_wait_until_discover offb_velocity_outcome)

lemma error_exit_outcomes:
  "snd (action_error_exit ar message) = (if ar = ActionSuccess then Return () else Exit EXIT_FAILURE)"
  "snd (offboard_error_exit r message) = (if r = OffboardSuccess then Return () else Exit EXIT_FAILURE)"
  "snd (connection_error_exit cr message)
     = (if cr = ConnectionSuccess then Return () else Exit EXIT_FAILURE)"
  by (simp_all add: action_error_exit_def offboard_error_exit_def connection_error_exit_def
      ret_def)

lemma no_retry_velocity: "no_retry (fst (main_velocity e bin_name args))"
  by (simp add: no_retry_def main_velocity_def wait_until_discover_eq
      offb_ctrl_attitude_velocity_def offboard_error_exit_def offboard_log_def run_defs
      usage_velocity_def)

lemma no_retry_attitude_control: "no_retry (fst (main_attitude_control e bin_name args))"
  by (simp add: no_retry_def main_attitude_control_def get_system_eq
      offb_ctrl_attitude_control_def run_defs usage_def)

lemma no_retry_telemetry:
  "no_retry (fst (main_telemetry_health e bin_name args))"
  "no_retry (fst (main_read_blocking e bin_name args))"
  "no_retry (fst (main_vision e bin_name args))"
  by (simp_all add: no_retry_def main_telemetry_health_def main_read_blocking_def
      main_vision_def get_system_eq run_defs usage_def at_most_once_append at_most_once_none
      read_telemetry_def print_getter_def send_vision_def)

lemma no_retry_working: "no_retry (fst (main_working fuel e bin_name args))"
proof -
  let ?k = "([Print Cout [Txt ''Landed!\<newline>''], Sleep 3000,
             Print Cout [Txt ''Finished...\<newline>'']], Return (0::int))"
  obtain n where
    "landing_loop fuel (in_air_poll e) 0 ?k = (landing_events n, OutOfFuel)
     \<or> landing_loop fuel (in_air_poll e) 0 ?k = emit (landing_events n @ [TelemetryGet in_air]) ?k"
    using landing_loop_cases by blast
  then show ?thesis
  proof
    assume l: "landing_loop fuel (in_air_poll e) 0 ?k = (landing_events n, OutOfFuel)"
    show ?thesis
      by (simp add: no_retry_def main_working_def get_system_eq on_landed_state_eq
        offb_ctrl_attitude_working_def run_defs usage_def l at_most_once_append
        at_most_once_landing landing_events_mem)
  next
    assume l: "landing_loop fuel (in_air_poll e) 0 ?k
       = emit (landing_events n @ [TelemetryGet in_air]) ?k"
    show ?thesis
      by (simp add: no_retry_def main_working_def get_system_eq on_landed_state_eq
        offb_ctrl_attitude_working_def run_defs usage_def l at_most_once_append
        at_most_once_landing landing_events_mem)
  qed
qed

lemma no_retry_position: "no_retry (fst (main_position fuel e bin_name args))"
proof -
  let ?k = "([Print Cout [Txt ''Landed!\<newline>''], Sleep 3000,
             Print Cout [Txt ''Finished...\<newline>'']], Return (0::int))"
  obtain n where
    "landing_loop fuel (in_air_poll e) 0 ?k = (landing_events n, OutOfFuel)
     \<or> landing_loop fuel (in_air_poll e) 0 ?k = emit (landing_events n @ [TelemetryGet in_air]) ?k"
    using landing_loop_cases by blast
  then show ?thesis
  proof
    assume l: "landing_loop fuel (in_air_poll e) 0 ?k = (landing_events n, OutOfFuel)"
    show ?thesis
      by (simp add: no_retry_def main_position_def get_system_eq
        offb_ctrl_ned_position_def run_defs usage_def l at_most_once_append
        at_most_once_landing landing_events_mem)
  next
    assume l: "landing_loop fuel (in_air_poll e) 0 ?k
       = emit (landing_events n @ [TelemetryGet in_air]) ?k"
    show ?thesis
      by (simp add: no_retry_def main_position_def get_system_eq
        offb_ctrl_ned_position_def run_defs usage_def l at_most_once_append
        at_most_once_landing landing_events_mem)
  qed
qed

section \<open>The claims\<close>

text \<open>
  C1.  In \<^verbatim>\<open>offb_ctrl_ned\<close> of \<^verbatim>\<open>offboard_velocity_working.cpp\<close>, whenever offboard mode
  was started, the setpoint sent at the step logged as "Go down 1 m/s, turn to face
  North" is the value-initialised \<^verbatim>\<open>down_and_north\<close>, all four fields zero.  The
  assignment \<^verbatim>\<open>down_m_s = 1.0f\<close> goes to the local \<^verbatim>\<open>up_and_south\<close>: no NED setpoint
  with a down velocity of 1 is ever sent, and \<^verbatim>\<open>up_and_south\<close> as it was sent in the
  step before (2 m/s up, facing South) is sent exactly once.
\<close>

theorem ned_down_and_north_sends_zero:
  assumes "start_result e = OffboardSuccess"
  shows "next_after (Print Cout [Txt ''Go down 1 m/s, turn to face North\<newline>''])
           (fst (offb_ctrl_ned_working fp e))
         = Some (SetVelocityNed
             \<lparr>north_m_s = 0, east_m_s = 0, VelocityNedYaw.down_m_s = 0,
              VelocityNedYaw.yaw_deg = 0\<rparr>)
       \<and> (\<forall>v. SetVelocityNed v \<in> set (fst (offb_ctrl_ned_working fp e))
              \<longrightarrow> VelocityNedYaw.down_m_s v \<noteq> 1)
       \<and> count_list (fst (offb_ctrl_ned_working fp e))
           (SetVelocityNed
             \<lparr>north_m_s = 0, east_m_s = 0, VelocityNedYaw.down_m_s = - 2,
              VelocityNedYaw.yaw_deg = 180\<rparr>) = 1"
proof -
  let ?sweep = "concat (map (\<lambda>i. north_and_back_south fp (word_of_nat i)) [0..<unat (steps fp)])"
  have notin: "Print Cout [Txt ''Go down 1 m/s, turn to face North\<newline>''] \<notin> set ?sweep"
    using sweep_events by blast
  have down: "\<And>v. SetVelocityNed v \<in> set ?sweep \<Longrightarrow> VelocityNedYaw.down_m_s v = 0"
    using sweep_events[of _ fp] by (fastforce simp: VelocityNedYaw0_def)
  have "SetVelocityNed \<lparr>north_m_s = 0, east_m_s = 0, VelocityNedYaw.down_m_s = - 2,
              VelocityNedYaw.yaw_deg = 180\<rparr> \<notin> set ?sweep"
    using down by fastforce
  then have once: "count_list ?sweep (SetVelocityNed \<lparr>north_m_s = 0, east_m_s = 0,
              VelocityNedYaw.down_m_s = - 2, VelocityNedYaw.yaw_deg = 180\<rparr>) = 0"
    by (simp only: count_list_0_iff not_False_eq_True)
  show ?thesis
    using assms notin down once
    by (simp add: offb_ctrl_ned_working_def emit_def ret_def Let_def VelocityNedYaw0_def
        next_after_append)
qed

theorem ned_down_and_north_sends_zero_witness:
  "start_result nominal_env = OffboardSuccess
   \<and> next_after (Print Cout [Txt ''Go down 1 m/s, turn to face North\<newline>''])
           (fst (offb_ctrl_ned_working rational_float_ops nominal_env))
         = Some (SetVelocityNed
             \<lparr>north_m_s = 0, east_m_s = 0, VelocityNedYaw.down_m_s = 0,
              VelocityNedYaw.yaw_deg = 0\<rparr>)
   \<and> SetVelocityNed \<lparr>north_m_s = 0, east_m_s = 0, VelocityNedYaw.down_m_s = 1,
              VelocityNedYaw.yaw_deg = 180\<rparr>
       \<notin> set (fst (offb_ctrl_ned_working rational_float_ops nominal_env))
   \<and> count_list (fst (offb_ctrl_ned_working rational_float_ops nominal_env))
           (SetVelocityNed
             \<lparr>north_m_s = 0, east_m_s = 0, VelocityNedYaw.down_m_s = - 2,
              VelocityNedYaw.yaw_deg = 180\<rparr>) = 1"
proof -
  have h: "start_result nominal_env = OffboardSuccess"
    by (simp add: nominal_env_def)
  from ned_down_and_north_sends_zero[OF h, of rational_float_ops] h show ?thesis
    by fastforce
qed

text \<open>
  C2, as stated, fails: \<^verbatim>\<open>offb_ctrl_attitude\<close> of
  \<^verbatim>\<open>offboard_attitude_control.cpp\<close> returns true in the nominal run and has not
  called \<^verbatim>\<open>offboard.stop()\<close> after its last setpoint.
\<close>

theorem offb_ctrl_attitude_returns_without_stop:
  "snd (offb_ctrl_attitude_control nominal_env) = Return True
   \<and> \<not> closes (\<lambda>ev. ev = OffboardStop) is_any_setpoint False
         (fst (offb_ctrl_attitude_control nominal_env))"
  by (simp add: offb_ctrl_attitude_control_def run_defs nominal_env_def)

text \<open>
  C2, amended.  \<^verbatim>\<open>offb_ctrl_ned\<close> and \<^verbatim>\<open>offb_ctrl_body\<close> of
  \<^verbatim>\<open>offboard_velocity_working.cpp\<close> and the three \<^verbatim>\<open>offb_ctrl_*\<close> functions of the
  position-control listing call \<^verbatim>\<open>offboard.stop()\<close> after their last setpoint on
  every path that returns true.  The \<^verbatim>\<open>offb_ctrl_attitude\<close> functions of
  \<^verbatim>\<open>offboard_velocity.cpp\<close>, \<^verbatim>\<open>offboard_attitude_control.cpp\<close> and
  \<^verbatim>\<open>offboard_velocity_working.cpp\<close> never call \<^verbatim>\<open>offboard.stop()\<close>: the call is
  commented out.  When the start succeeded they return true, and a setpoint is the
  last call they made.
\<close>

theorem offb_ctrl_stop_after_last_setpoint:
  "(snd (offb_ctrl_ned_working fp e) = Return True \<longrightarrow>
      closes (\<lambda>ev. ev = OffboardStop) is_any_setpoint False (fst (offb_ctrl_ned_working fp e)))
   \<and> (snd (offb_ctrl_body_working e) = Return True \<longrightarrow>
      closes (\<lambda>ev. ev = OffboardStop) is_any_setpoint False (fst (offb_ctrl_body_working e)))
   \<and> (snd (offb_ctrl_ned_position e) = Return True \<longrightarrow>
      closes (\<lambda>ev. ev = OffboardStop) is_any_setpoint False (fst (offb_ctrl_ned_position e)))
   \<and> (snd (offb_ctrl_body_position e) = Return True \<longrightarrow>
      closes (\<lambda>ev. ev = OffboardStop) is_any_setpoint False (fst (offb_ctrl_body_position e)))
   \<and> (snd (offb_ctrl_attitude_position e) = Return True \<longrightarrow>
      closes (\<lambda>ev. ev = OffboardStop) is_any_setpoint False
        (fst (offb_ctrl_attitude_position e)))
   \<and> OffboardStop \<notin> set (fst (offb_ctrl_attitude_velocity e))
   \<and> OffboardStop \<notin> set (fst (offb_ctrl_attitude_control e))
   \<and> OffboardStop \<notin> set (fst (offb_ctrl_attitude_working e))
   \<and> (start_result e = OffboardSuccess \<longrightarrow>
        snd (offb_ctrl_attitude_velocity e) = Return True
        \<and> is_any_setpoint (last (calls (fst (offb_ctrl_attitude_velocity e)))))
   \<and> (start_result e = OffboardSuccess \<longrightarrow>
        snd (offb_ctrl_attitude_control e) = Return True
        \<and> is_any_setpoint (last (calls (fst (offb_ctrl_attitude_control e)))))
   \<and> (start_result e = OffboardSuccess \<longrightarrow>
        snd (offb_ctrl_attitude_working e) = Return True
        \<and> is_any_setpoint (last (calls (fst (offb_ctrl_attitude_working e)))))"
proof -
  have nw: "snd (offb_ctrl_ned_working fp e) = Return True \<longrightarrow>
      closes (\<lambda>ev. ev = OffboardStop) is_any_setpoint False (fst (offb_ctrl_ned_working fp e))"
    by (simp add: offb_ctrl_ned_working_def run_defs closes_append)
  have bw: "snd (offb_ctrl_body_working e) = Return True \<longrightarrow>
      closes (\<lambda>ev. ev = OffboardStop) is_any_setpoint False (fst (offb_ctrl_body_working e))"
    by (simp add: offb_ctrl_body_working_def run_defs)
  have np: "snd (offb_ctrl_ned_position e) = Return True \<longrightarrow>
      closes (\<lambda>ev. ev = OffboardStop) is_any_setpoint False (fst (offb_ctrl_ned_position e))"
    by (simp add: offb_ctrl_ned_position_def run_defs)
  have bp: "snd (offb_ctrl_body_position e) = Return True \<longrightarrow>
      closes (\<lambda>ev. ev = OffboardStop) is_any_setpoint False (fst (offb_ctrl_body_position e))"
    by (simp add: offb_ctrl_body_position_def run_defs)
  have ap: "snd (offb_ctrl_attitude_position e) = Return True \<longrightarrow>
      closes (\<lambda>ev. ev = OffboardStop) is_any_setpoint False
        (fst (offb_ctrl_attitude_position e))"
    by (simp add: offb_ctrl_attitude_position_def run_defs)
  have v: "OffboardStop \<notin> set (fst (offb_ctrl_attitude_velocity e))"
    by (simp add: offb_ctrl_attitude_velocity_def offboard_error_exit_def offboard_log_def
        run_defs)
  have c: "OffboardStop \<notin> set (fst (offb_ctrl_attitude_control e))"
    by (simp add: offb_ctrl_attitude_control_def run_defs)
  have aw: "OffboardStop \<notin> set (fst (offb_ctrl_attitude_working e))"
    by (simp add: offb_ctrl_attitude_working_def run_defs)
  have vt: "start_result e = OffboardSuccess \<longrightarrow>
        snd (offb_ctrl_attitude_velocity e) = Return True
        \<and> is_any_setpoint (last (calls (fst (offb_ctrl_attitude_velocity e))))"
    by (simp add: offb_ctrl_attitude_velocity_def offboard_error_exit_def offboard_log_def
        run_defs calls_def)
  have ct: "start_result e = OffboardSuccess \<longrightarrow>
        snd (offb_ctrl_attitude_control e) = Return True
        \<and> is_any_setpoint (last (calls (fst (offb_ctrl_attitude_control e))))"
    by (simp add: offb_ctrl_attitude_control_def run_defs calls_def)
  have wt: "start_result e = OffboardSuccess \<longrightarrow>
        snd (offb_ctrl_attitude_working e) = Return True
        \<and> is_any_setpoint (last (calls (fst (offb_ctrl_attitude_working e))))"
    by (simp add: offb_ctrl_attitude_working_def run_defs calls_def)
  from nw bw np bp ap v c aw vt ct wt show ?thesis by blast
qed

theorem offb_ctrl_stop_after_last_setpoint_witness:
  "snd (offb_ctrl_ned_working rational_float_ops nominal_env) = Return True
   \<and> closes (\<lambda>ev. ev = OffboardStop) is_any_setpoint False
       (fst (offb_ctrl_ned_working rational_float_ops nominal_env))
   \<and> snd (offb_ctrl_body_working nominal_env) = Return True
   \<and> closes (\<lambda>ev. ev = OffboardStop) is_any_setpoint False
       (fst (offb_ctrl_body_working nominal_env))
   \<and> snd (offb_ctrl_ned_position nominal_env) = Return True
   \<and> closes (\<lambda>ev. ev = OffboardStop) is_any_setpoint False
       (fst (offb_ctrl_ned_position nominal_env))
   \<and> OffboardStop \<notin> set (fst (offb_ctrl_attitude_working nominal_env))
   \<and> start_result nominal_env = OffboardSuccess
   \<and> snd (offb_ctrl_attitude_working nominal_env) = Return True
   \<and> is_any_setpoint (last (calls (fst (offb_ctrl_attitude_working nominal_env))))"
proof -
  have h: "snd (offb_ctrl_ned_working rational_float_ops nominal_env) = Return True"
    "snd (offb_ctrl_body_working nominal_env) = Return True"
    "snd (offb_ctrl_ned_position nominal_env) = Return True"
    "start_result nominal_env = OffboardSuccess"
    by (simp_all add: offb_outcomes nominal_env_def)
  from offb_ctrl_stop_after_last_setpoint[of rational_float_ops nominal_env] h
  show ?thesis by blast
qed

text \<open>
  C3.  Every \<^verbatim>\<open>offb_ctrl_*\<close> function calls \<^verbatim>\<open>offboard.start()\<close>, and a setpoint
  (\<^verbatim>\<open>set_attitude\<close>, \<^verbatim>\<open>set_velocity_ned\<close> or \<^verbatim>\<open>set_velocity_body\<close>) has been sent
  before it does.
\<close>

theorem offb_ctrl_setpoint_before_start:
  "OffboardStart \<in> set (fst (offb_ctrl_attitude_velocity e))
   \<and> preceded is_setpoint (\<lambda>ev. ev = OffboardStart) False (fst (offb_ctrl_attitude_velocity e))
   \<and> OffboardStart \<in> set (fst (offb_ctrl_attitude_control e))
   \<and> preceded is_setpoint (\<lambda>ev. ev = OffboardStart) False (fst (offb_ctrl_attitude_control e))
   \<and> OffboardStart \<in> set (fst (offb_ctrl_ned_working fp e))
   \<and> preceded is_setpoint (\<lambda>ev. ev = OffboardStart) False (fst (offb_ctrl_ned_working fp e))
   \<and> OffboardStart \<in> set (fst (offb_ctrl_body_working e))
   \<and> preceded is_setpoint (\<lambda>ev. ev = OffboardStart) False (fst (offb_ctrl_body_working e))
   \<and> OffboardStart \<in> set (fst (offb_ctrl_attitude_working e))
   \<and> preceded is_setpoint (\<lambda>ev. ev = OffboardStart) False (fst (offb_ctrl_attitude_working e))
   \<and> OffboardStart \<in> set (fst (offb_ctrl_ned_position e))
   \<and> preceded is_setpoint (\<lambda>ev. ev = OffboardStart) False (fst (offb_ctrl_ned_position e))
   \<and> OffboardStart \<in> set (fst (offb_ctrl_body_position e))
   \<and> preceded is_setpoint (\<lambda>ev. ev = OffboardStart) False (fst (offb_ctrl_body_position e))
   \<and> OffboardStart \<in> set (fst (offb_ctrl_attitude_position e))
   \<and> preceded is_setpoint (\<lambda>ev. ev = OffboardStart) False (fst (offb_ctrl_attitude_position e))"
proof -
  have v: "OffboardStart \<in> set (fst (offb_ctrl_attitude_velocity e))
      \<and> preceded is_setpoint (\<lambda>ev. ev = OffboardStart) False
          (fst (offb_ctrl_attitude_velocity e))"
    by (simp add: offb_ctrl_attitude_velocity_def offboard_error_exit_def offboard_log_def
        run_defs)
  have c: "OffboardStart \<in> set (fst (offb_ctrl_attitude_control e))
      \<and> preceded is_setpoint (\<lambda>ev. ev = OffboardStart) False
          (fst (offb_ctrl_attitude_control e))"
    by (simp add: offb_ctrl_attitude_control_def run_defs)
  have nw: "OffboardStart \<in> set (fst (offb_ctrl_ned_working fp e))
      \<and> preceded is_setpoint (\<lambda>ev. ev = OffboardStart) False (fst (offb_ctrl_ned_working fp e))"
    by (simp add: offb_ctrl_ned_working_def run_defs preceded_append preceded_seen)
  have bw: "OffboardStart \<in> set (fst (offb_ctrl_body_working e))
      \<and> preceded is_setpoint (\<lambda>ev. ev = OffboardStart) False (fst (offb_ctrl_body_working e))"
    by (simp add: offb_ctrl_body_working_def run_defs)
  have aw: "OffboardStart \<in> set (fst (offb_ctrl_attitude_working e))
      \<and> preceded is_setpoint (\<lambda>ev. ev = OffboardStart) False
          (fst (offb_ctrl_attitude_working e))"
    by (simp add: offb_ctrl_attitude_working_def run_defs)
  have np: "OffboardStart \<in> set (fst (offb_ctrl_ned_position e))
      \<and> preceded is_setpoint (\<lambda>ev. ev = OffboardStart) False (fst (offb_ctrl_ned_position e))"
    by (simp add: offb_ctrl_ned_position_def run_defs)
  have bp: "OffboardStart \<in> set (fst (offb_ctrl_body_position e))
      \<and> preceded is_setpoint (\<lambda>ev. ev = OffboardStart) False (fst (offb_ctrl_body_position e))"
    by (simp add: offb_ctrl_body_position_def run_defs)
  have ap: "OffboardStart \<in> set (fst (offb_ctrl_attitude_position e))
      \<and> preceded is_setpoint (\<lambda>ev. ev = OffboardStart) False
          (fst (offb_ctrl_attitude_position e))"
    by (simp add: offb_ctrl_attitude_position_def run_defs)
  from v c nw bw aw np bp ap show ?thesis by blast
qed

theorem offb_ctrl_setpoint_before_start_witness:
  "OffboardStart \<in> set (fst (offb_ctrl_attitude_velocity nominal_env))
   \<and> preceded is_setpoint (\<lambda>ev. ev = OffboardStart) False
       (fst (offb_ctrl_attitude_velocity nominal_env))
   \<and> OffboardStart \<in> set (fst (offb_ctrl_ned_working rational_float_ops nominal_env))
   \<and> preceded is_setpoint (\<lambda>ev. ev = OffboardStart) False
       (fst (offb_ctrl_ned_working rational_float_ops nominal_env))
   \<and> \<not> preceded is_setpoint (\<lambda>ev. ev = OffboardStart) False [OffboardStart, SetAttitude Attitude0]"
  using offb_ctrl_setpoint_before_start[of nominal_env rational_float_ops] by simp

text \<open>
  C4, as stated, fails: \<^verbatim>\<open>main\<close> of \<^verbatim>\<open>offboard_telemetry_health.cpp\<close> subscribes to
  telemetry and returns 0 in the nominal run without ever arming or disarming.
\<close>

theorem telemetry_health_never_arms:
  "snd (main_telemetry_health nominal_env ''offboard_health'' [''udp://:14540'']) = Return 0
   \<and> SubscribeHealth
       \<in> set (fst (main_telemetry_health nominal_env ''offboard_health'' [''udp://:14540'']))
   \<and> ActionArm
       \<notin> set (fst (main_telemetry_health nominal_env ''offboard_health'' [''udp://:14540'']))
   \<and> ActionDisarm
       \<notin> set (fst (main_telemetry_health nominal_env ''offboard_health'' [''udp://:14540'']))"
  by (simp add: main_telemetry_health_def get_system_eq run_defs nominal_env_def)

text \<open>
  C4, amended.  The programs that run an offboard sequence
  (\<^verbatim>\<open>offboard_velocity.cpp\<close>, \<^verbatim>\<open>offboard_velocity_working.cpp\<close>,
  \<^verbatim>\<open>offboard_attitude_control.cpp\<close> and the position-control listing) call
  \<^verbatim>\<open>action.arm()\<close> before the first setpoint and before \<^verbatim>\<open>offboard.start()\<close>, and
  send no setpoint when arming fails.  No program calls \<^verbatim>\<open>disarm\<close>: in a run
  that ends with the success status, \<^verbatim>\<open>offboard_velocity.cpp\<close> and
  \<^verbatim>\<open>offboard_attitude_control.cpp\<close> call \<^verbatim>\<open>action.kill()\<close> after the last
  setpoint, \<^verbatim>\<open>offboard_velocity_working.cpp\<close> and the position-control listing call
  \<^verbatim>\<open>action.land()\<close>.  \<^verbatim>\<open>offboard_telemetry_health.cpp\<close>,
  \<^verbatim>\<open>offboard_read_blocking.cpp\<close> and \<^verbatim>\<open>offboard_vision.cpp\<close> never arm.
\<close>

theorem arm_before_sequence_no_disarm:
  "(preceded (\<lambda>ev. ev = ActionArm) (\<lambda>ev. is_any_setpoint ev \<or> ev = OffboardStart) False
      (fst (main_velocity e bin_name args))
    \<and> (arm_result e \<noteq> ActionSuccess \<longrightarrow>
         \<not> (\<exists>ev \<in> set (fst (main_velocity e bin_name args)). is_any_setpoint ev))
    \<and> ActionDisarm \<notin> set (fst (main_velocity e bin_name args))
    \<and> (snd (main_velocity e bin_name args) = Return EXIT_SUCCESS \<longrightarrow>
         closes (\<lambda>ev. ev = ActionKill) is_any_setpoint False
           (fst (main_velocity e bin_name args))))
   \<and> (preceded (\<lambda>ev. ev = ActionArm) (\<lambda>ev. is_any_setpoint ev \<or> ev = OffboardStart) False
      (fst (main_attitude_control e bin_name args))
    \<and> (arm_result e \<noteq> ActionSuccess \<longrightarrow>
         \<not> (\<exists>ev \<in> set (fst (main_attitude_control e bin_name args)). is_any_setpoint ev))
    \<and> ActionDisarm \<notin> set (fst (main_attitude_control e bin_name args))
    \<and> (snd (main_attitude_control e bin_name args) = Return 0 \<longrightarrow>
         closes (\<lambda>ev. ev = ActionKill) is_any_setpoint False
           (fst (main_attitude_control e bin_name args))))
   \<and> (preceded (\<lambda>ev. ev = ActionArm) (\<lambda>ev. is_any_setpoint ev \<or> ev = OffboardStart) False
      (fst (main_working fuel e bin_name args))
    \<and> (arm_result e \<noteq> ActionSuccess \<longrightarrow>
         \<not> (\<exists>ev \<in> set (fst (main_working fuel e bin_name args)). is_any_setpoint ev))
    \<and> ActionDisarm \<notin> set (fst (main_working fuel e bin_name args))
    \<and> (snd (main_working fuel e bin_name args) = Return 0 \<longrightarrow>
         closes (\<lambda>ev. ev = ActionLand) is_any_setpoint False
           (fst (main_working fuel e bin_name args))))
   \<and> (preceded (\<lambda>ev. ev = ActionArm) (\<lambda>ev. is_any_setpoint ev \<or> ev = OffboardStart) False
      (fst (main_position fuel e bin_name args))
    \<and> (arm_result e \<noteq> ActionSuccess \<longrightarrow>
         \<not> (\<exists>ev \<in> set (fst (main_position fuel e bin_name args)). is_any_setpoint ev))
    \<and> ActionDisarm \<notin> set (fst (main_position fuel e bin_name args))
    \<and> (snd (main_position fuel e bin_name args) = Return 0 \<longrightarrow>
         closes (\<lambda>ev. ev = ActionLand) is_any_setpoint False
           (fst (main_position fuel e bin_name args))))
   \<and> (ActionArm \<notin> set (fst (main_telemetry_health e bin_name args))
    \<and> ActionDisarm \<notin> set (fst (main_telemetry_health e bin_name args))
    \<and> ActionArm \<notin> set (fst (main_read_blocking e bin_name args))
    \<and> ActionDisarm \<notin> set (fst (main_read_blocking e bin_name args))
    \<and> ActionArm \<notin> set (fst (main_vision e bin_name args))
    \<and> ActionDisarm \<notin> set (fst (main_vision e bin_name args)))"
  using arm_velocity[of e bin_name args] arm_attitude_control[of e bin_name args]
    arm_working[of fuel e bin_name args] arm_position[of fuel e bin_name args]
    no_arm_telemetry[of e bin_name args]
  by blast

theorem arm_before_sequence_no_disarm_witness:
  "snd (main_attitude_control nominal_env ''offboard'' [''udp://:14540'']) = Return 0
   \<and> preceded (\<lambda>ev. ev = ActionArm) (\<lambda>ev. is_any_setpoint ev \<or> ev = OffboardStart) False
       (fst (main_attitude_control nominal_env ''offboard'' [''udp://:14540'']))
   \<and> closes (\<lambda>ev. ev = ActionKill) is_any_setpoint False
       (fst (main_attitude_control nominal_env ''offboard'' [''udp://:14540'']))
   \<and> snd (main_working 1 nominal_env ''offboard'' [''udp://:14540'']) = Return 0
   \<and> closes (\<lambda>ev. ev = ActionLand) is_any_setpoint False
       (fst (main_working 1 nominal_env ''offboard'' [''udp://:14540'']))
   \<and> arm_result (nominal_env\<lparr>arm_result := ActionFailure 1\<rparr>) \<noteq> ActionSuccess
   \<and> \<not> (\<exists>ev \<in> set (fst (main_position 1 (nominal_env\<lparr>arm_result := ActionFailure 1\<rparr>)
                             ''offboard'' [''udp://:14540''])). is_any_setpoint ev)"
proof -
  have a: "snd (main_attitude_control nominal_env ''offboard'' [''udp://:14540'']) = Return 0"
    by (simp add: outcome_attitude_control nominal_env_def)
  have w: "snd (main_working 1 nominal_env ''offboard'' [''udp://:14540'']) = Return 0"
    by (rule outcome_working(2)[of _ _ 0]) (simp_all add: nominal_env_def)
  have f: "arm_result (nominal_env\<lparr>arm_result := ActionFailure 1\<rparr>) \<noteq> ActionSuccess"
    by simp
  from arm_before_sequence_no_disarm[of nominal_env "''offboard''" "[''udp://:14540'']" 1]
    arm_before_sequence_no_disarm[of "nominal_env\<lparr>arm_result := ActionFailure 1\<rparr>"
      "''offboard''" "[''udp://:14540'']" 1]
    a w f
  show ?thesis by blast
qed

text \<open>
  C5, as stated, fails: in \<^verbatim>\<open>offboard_velocity.cpp\<close> the result of
  \<^verbatim>\<open>set_attitude_position_mocap\<close> is printed and nothing else; when it is a
  failure the program goes on to "System is ready", arms, and ends with the success
  status.
\<close>

theorem mocap_failure_is_only_printed:
  "snd (main_velocity (nominal_env\<lparr>mocap_result := MocapFailure 1\<rparr>)
          ''offboard'' [''udp://:14540''])
     = Return EXIT_SUCCESS
   \<and> next_after (Print Cout [Txt ''Mocap Status: '', MocapResultV (MocapFailure 1), Endl])
       (fst (main_velocity (nominal_env\<lparr>mocap_result := MocapFailure 1\<rparr>)
               ''offboard'' [''udp://:14540'']))
     = Some (Print Cout [Txt ''System is ready'', Endl])
   \<and> ActionArm \<in> set (fst (main_velocity (nominal_env\<lparr>mocap_result := MocapFailure 1\<rparr>)
        ''offboard'' [''udp://:14540'']))"
  by (simp add: main_velocity_def wait_until_discover_eq offb_ctrl_attitude_velocity_def
      offboard_error_exit_def offboard_log_def run_defs nominal_env_def)

text \<open>
  C5, amended.  A result other than \<^verbatim>\<open>Success\<close> of \<^verbatim>\<open>add_any_connection\<close>, of
  \<^verbatim>\<open>arm\<close>, of offboard \<^verbatim>\<open>start\<close> and, where it is called, of offboard \<^verbatim>\<open>stop\<close>
  ends the function at once: the failed call is the last call it makes, \<^verbatim>\<open>main\<close>
  returns 1 and \<^verbatim>\<open>offb_ctrl_*\<close> returns false (in \<^verbatim>\<open>offboard_velocity.cpp\<close> a
  failed start calls \<^verbatim>\<open>exit(EXIT_FAILURE)\<close>).  The result of
  \<^verbatim>\<open>set_attitude_position_mocap\<close> (\<^verbatim>\<open>offboard_velocity.cpp\<close>) and of
  \<^verbatim>\<open>set_vision_position_estimate\<close> (\<^verbatim>\<open>offboard_vision.cpp\<close>) is only printed: the
  run makes the same calls and ends the same way whatever that result is.
\<close>

theorem failure_reaction_or_only_printed:
  "(length args = 1 \<and> connection_result e \<noteq> ConnectionSuccess \<longrightarrow>
      (snd (main_velocity e bin_name args) = Return 1
        \<and> last (calls (fst (main_velocity e bin_name args))) = AddAnyConnection (args ! 0))
      \<and> (snd (main_working fuel e bin_name args) = Return 1
        \<and> last (calls (fst (main_working fuel e bin_name args))) = AddAnyConnection (args ! 0))
      \<and> (snd (main_attitude_control e bin_name args) = Return 1
        \<and> last (calls (fst (main_attitude_control e bin_name args)))
            = AddAnyConnection (args ! 0))
      \<and> (snd (main_telemetry_health e bin_name args) = Return 1
        \<and> last (calls (fst (main_telemetry_health e bin_name args)))
            = AddAnyConnection (args ! 0))
      \<and> (snd (main_read_blocking e bin_name args) = Return 1
        \<and> last (calls (fst (main_read_blocking e bin_name args))) = AddAnyConnection (args ! 0))
      \<and> (snd (main_vision e bin_name args) = Return 1
        \<and> last (calls (fst (main_vision e bin_name args))) = AddAnyConnection (args ! 0))
      \<and> (snd (main_position fuel e bin_name args) = Return 1
        \<and> last (calls (fst (main_position fuel e bin_name args))) = AddAnyConnection (args ! 0)))
   \<and> (arm_result e \<noteq> ActionSuccess \<longrightarrow>
      (ActionArm \<in> set (fst (main_velocity e bin_name args)) \<longrightarrow>
          snd (main_velocity e bin_name args) = Return 1
        \<and> last (calls (fst (main_velocity e bin_name args))) = ActionArm)
      \<and> (ActionArm \<in> set (fst (main_working fuel e bin_name args)) \<longrightarrow>
          snd (main_working fuel e bin_name args) = Return 1
        \<and> last (calls (fst (main_working fuel e bin_name args))) = ActionArm)
      \<and> (ActionArm \<in> set (fst (main_attitude_control e bin_name args)) \<longrightarrow>
          snd (main_attitude_control e bin_name args) = Return 1
        \<and> last (calls (fst (main_attitude_control e bin_name args))) = ActionArm)
      \<and> (ActionArm \<in> set (fst (main_position fuel e bin_name args)) \<longrightarrow>
          snd (main_position fuel e bin_name args) = Return 1
        \<and> last (calls (fst (main_position fuel e bin_name args))) = ActionArm))
   \<and> (start_result e \<noteq> OffboardSuccess \<longrightarrow>
      (snd (offb_ctrl_attitude_velocity e) = Exit EXIT_FAILURE
        \<and> last (calls (fst (offb_ctrl_attitude_velocity e))) = OffboardStart)
      \<and> (snd (offb_ctrl_attitude_control e) = Return False
        \<and> last (calls (fst (offb_ctrl_attitude_control e))) = OffboardStart)
      \<and> (snd (offb_ctrl_ned_working fp e) = Return False
        \<and> last (calls (fst (offb_ctrl_ned_working fp e))) = OffboardStart)
      \<and> (snd (offb_ctrl_body_working e) = Return False
        \<and> last (calls (fst (offb_ctrl_body_working e))) = OffboardStart)
      \<and> (snd (offb_ctrl_attitude_working e) = Return False
        \<and> last (calls (fst (offb_ctrl_attitude_working e))) = OffboardStart)
      \<and> (snd (offb_ctrl_ned_position e) = Return False
        \<and> last (calls (fst (offb_ctrl_ned_position e))) = OffboardStart)
      \<and> (snd (offb_ctrl_body_position e) = Return False
        \<and> last (calls (fst (offb_ctrl_body_position e))) = OffboardStart)
      \<and> (snd (offb_ctrl_attitude_position e) = Return False
        \<and> last (calls (fst (offb_ctrl_attitude_position e))) = OffboardStart))
   \<and> (start_result e = OffboardSuccess \<and> stop_result e \<noteq> OffboardSuccess \<longrightarrow>
      (snd (offb_ctrl_ned_working fp e) = Return False
        \<and> last (calls (fst (offb_ctrl_ned_working fp e))) = OffboardStop)
      \<and> (snd (offb_ctrl_body_working e) = Return False
        \<and> last (calls (fst (offb_ctrl_body_working e))) = OffboardStop)
      \<and> (snd (offb_ctrl_ned_position e) = Return False
        \<and> last (calls (fst (offb_ctrl_ned_position e))) = OffboardStop)
      \<and> (snd (offb_ctrl_body_position e) = Return False
        \<and> last (calls (fst (offb_ctrl_body_position e))) = OffboardStop)
      \<and> (snd (offb_ctrl_attitude_position e) = Return False
        \<and> last (calls (fst (offb_ctrl_attitude_position e))) = OffboardStop))
   \<and> (snd (main_velocity (e\<lparr>mocap_result := r\<rparr>) bin_name args)
        = snd (main_velocity e bin_name args)
      \<and> calls (fst (main_velocity (e\<lparr>mocap_result := r\<rparr>) bin_name args))
        = calls (fst (main_velocity e bin_name args)))
   \<and> (snd (main_vision (e\<lparr>vision_result := rs\<rparr>) bin_name args)
        = snd (main_vision e bin_name args)
      \<and> calls (fst (main_vision (e\<lparr>vision_result := rs\<rparr>) bin_name args))
        = calls (fst (main_vision e bin_name args)))"
proof -
  have c: "length args = 1 \<and> connection_result e \<noteq> ConnectionSuccess \<longrightarrow>
      (snd (main_velocity e bin_name args) = Return 1
        \<and> last (calls (fst (main_velocity e bin_name args))) = AddAnyConnection (args ! 0))
      \<and> (snd (main_working fuel e bin_name args) = Return 1
        \<and> last (calls (fst (main_working fuel e bin_name args))) = AddAnyConnection (args ! 0))
      \<and> (snd (main_attitude_control e bin_name args) = Return 1
        \<and> last (calls (fst (main_attitude_control e bin_name args)))
            = AddAnyConnection (args ! 0))
      \<and> (snd (main_telemetry_health e bin_name args) = Return 1
        \<and> last (calls (fst (main_telemetry_health e bin_name args)))
            = AddAnyConnection (args ! 0))
      \<and> (snd (main_read_blocking e bin_name args) = Return 1
        \<and> last (calls (fst (main_read_blocking e bin_name args))) = AddAnyConnection (args ! 0))
      \<and> (snd (main_vision e bin_name args) = Return 1
        \<and> last (calls (fst (main_vision e bin_name args))) = AddAnyConnection (args ! 0))
      \<and> (snd (main_position fuel e bin_name args) = Return 1
        \<and> last (calls (fst (main_position fuel e bin_name args))) = AddAnyConnection (args ! 0))"
    using connection_failure[where args=args and e=e and bin_name=bin_name] by blast
  have a: "arm_result e \<noteq> ActionSuccess \<longrightarrow>
      (ActionArm \<in> set (fst (main_velocity e bin_name args)) \<longrightarrow>
          snd (main_velocity e bin_name args) = Return 1
        \<and> last (calls (fst (main_velocity e bin_name args))) = ActionArm)
      \<and> (ActionArm \<in> set (fst (main_working fuel e bin_name args)) \<longrightarrow>
          snd (main_working fuel e bin_name args) = Return 1
        \<and> last (calls (fst (main_working fuel e bin_name args))) = ActionArm)
      \<and> (ActionArm \<in> set (fst (main_attitude_control e bin_name args)) \<longrightarrow>
          snd (main_attitude_control e bin_name args) = Return 1
        \<and> last (calls (fst (main_attitude_control e bin_name args))) = ActionArm)
      \<and> (ActionArm \<in> set (fst (main_position fuel e bin_name args)) \<longrightarrow>
          snd (main_position fuel e bin_name args) = Return 1
        \<and> last (calls (fst (main_position fuel e bin_name args))) = ActionArm)"
    using arm_failure[where args=args and e=e and bin_name=bin_name] by blast
  have s: "start_result e \<noteq> OffboardSuccess \<longrightarrow>
      (snd (offb_ctrl_attitude_velocity e) = Exit EXIT_FAILURE
        \<and> last (calls (fst (offb_ctrl_attitude_velocity e))) = OffboardStart)
      \<and> (snd (offb_ctrl_attitude_control e) = Return False
        \<and> last (calls (fst (offb_ctrl_attitude_control e))) = OffboardStart)
      \<and> (snd (offb_ctrl_ned_working fp e) = Return False
        \<and> last (calls (fst (offb_ctrl_ned_working fp e))) = OffboardStart)
      \<and> (snd (offb_ctrl_body_working e) = Return False
        \<and> last (calls (fst (offb_ctrl_body_working e))) = OffboardStart)
      \<and> (snd (offb_ctrl_attitude_working e) = Return False
        \<and> last (calls (fst (offb_ctrl_attitude_working e))) = OffboardStart)
      \<and> (snd (offb_ctrl_ned_position e) = Return False
        \<and> last (calls (fst (offb_ctrl_ned_position e))) = OffboardStart)
      \<and> (snd (offb_ctrl_body_position e) = Return False
        \<and> last (calls (fst (offb_ctrl_body_position e))) = OffboardStart)
      \<and> (snd (offb_ctrl_attitude_position e) = Return False
        \<and> last (calls (fst (offb_ctrl_attitude_position e))) = OffboardStart)"
    using start_failure[where e=e] by blast
  have t: "start_result e = OffboardSuccess \<and> stop_result e \<noteq> OffboardSuccess \<longrightarrow>
      (snd (offb_ctrl_ned_working fp e) = Return False
        \<and> last (calls (fst (offb_ctrl_ned_working fp e))) = OffboardStop)
      \<and> (snd (offb_ctrl_body_working e) = Return False
        \<and> last (calls (fst (offb_ctrl_body_working e))) = OffboardStop)
      \<and> (snd (offb_ctrl_ned_position e) = Return False
        \<and> last (calls (fst (offb_ctrl_ned_position e))) = OffboardStop)
      \<and> (snd (offb_ctrl_body_position e) = Return False
        \<and> last (calls (fst (offb_ctrl_body_position e))) = OffboardStop)
      \<and> (snd (offb_ctrl_attitude_position e) = Return False
        \<and> last (calls (fst (offb_ctrl_attitude_position e))) = OffboardStop)"
    using stop_failure[where e=e] by blast
  note m = mocap_only_printed[where e=e and r=r and bin_name=bin_name and args=args]
  note v = vision_only_printed[where e=e and r=rs and bin_name=bin_name and args=args]
  from c a s t m v show ?thesis by blast
qed

theorem failure_reaction_or_only_printed_witness:
  "connection_result (nominal_env\<lparr>connection_result := ConnectionFailure 1\<rparr>) \<noteq> ConnectionSuccess
   \<and> snd (main_vision (nominal_env\<lparr>connection_result := ConnectionFailure 1\<rparr>)
            ''offboard_vision'' [''udp://:14540'']) = Return 1
   \<and> last (calls (fst (main_vision (nominal_env\<lparr>connection_result := ConnectionFailure 1\<rparr>)
            ''offboard_vision'' [''udp://:14540''])))
       = AddAnyConnection ''udp://:14540''
   \<and> arm_result (nominal_env\<lparr>arm_result := ActionFailure 1\<rparr>) \<noteq> ActionSuccess
   \<and> ActionArm \<in> set (fst (main_attitude_control (nominal_env\<lparr>arm_result := ActionFailure 1\<rparr>)
            ''offboard'' [''udp://:14540'']))
   \<and> snd (main_attitude_control (nominal_env\<lparr>arm_result := ActionFailure 1\<rparr>)
            ''offboard'' [''udp://:14540'']) = Return 1
   \<and> last (calls (fst (main_attitude_control (nominal_env\<lparr>arm_result := ActionFailure 1\<rparr>)
            ''offboard'' [''udp://:14540'']))) = ActionArm
   \<and> stop_result (nominal_env\<lparr>stop_result := OffboardFailure 1\<rparr>) \<noteq> OffboardSuccess
   \<and> snd (offb_ctrl_ned_working rational_float_ops (nominal_env\<lparr>stop_result := OffboardFailure 1\<rparr>))
       = Return False
   \<and> last (calls (fst (offb_ctrl_ned_working rational_float_ops
            (nominal_env\<lparr>stop_result := OffboardFailure 1\<rparr>)))) = OffboardStop
   \<and> snd (main_vision (nominal_env\<lparr>vision_result := (\<lambda>i. MocapFailure 1)\<rparr>)
            ''offboard_vision'' [''udp://:14540''])
       = snd (main_vision nominal_env ''offboard_vision'' [''udp://:14540''])"
proof -
  let ?c = "nominal_env\<lparr>connection_result := ConnectionFailure 1\<rparr>"
  let ?a = "nominal_env\<lparr>arm_result := ActionFailure 1\<rparr>"
  let ?s = "nominal_env\<lparr>stop_result := OffboardFailure 1\<rparr>"
  have hc: "length [''udp://:14540''] = 1 \<and> connection_result ?c \<noteq> ConnectionSuccess"
    by (simp add: nominal_env_def)
  have ha: "arm_result ?a \<noteq> ActionSuccess"
    by simp
  have ra: "ActionArm \<in> set (fst (main_attitude_control ?a ''offboard'' [''udp://:14540'']))"
    by (simp add: main_attitude_control_def get_system_eq run_defs nominal_env_def)
  have hs: "start_result ?s = OffboardSuccess \<and> stop_result ?s \<noteq> OffboardSuccess"
    by (simp add: nominal_env_def)
  from failure_reaction_or_only_printed
      [of "[''udp://:14540'']" ?c "''offboard_vision''" 1 rational_float_ops]
    failure_reaction_or_only_printed
      [of "[''udp://:14540'']" ?a "''offboard''" 1 rational_float_ops]
    failure_reaction_or_only_printed
      [of "[''udp://:14540'']" ?s "''offboard''" 1 rational_float_ops]
    failure_reaction_or_only_printed
      [of "[''udp://:14540'']" nominal_env "''offboard_vision''" 1 rational_float_ops
          MocapSuccess "\<lambda>i. MocapFailure 1"]
    hc ha ra hs
  show ?thesis by simp
qed

text \<open>
  C6, as stated, fails: in \<^verbatim>\<open>offboard_velocity.cpp\<close> a start that does not succeed
  ends the process, \<^verbatim>\<open>offboard_error_exit\<close> calls \<^verbatim>\<open>exit(EXIT_FAILURE)\<close>.
\<close>

theorem offboard_error_exit_terminates:
  "snd (offb_ctrl_attitude_velocity (nominal_env\<lparr>start_result := OffboardFailure 1\<rparr>)) = Exit 1"
  by (simp add: offb_ctrl_attitude_velocity_def offboard_error_exit_def offboard_log_def run_defs
      nominal_env_def EXIT_FAILURE_def)

text \<open>
  C6, amended.  In \<^verbatim>\<open>offboard_velocity_working.cpp\<close>,
  \<^verbatim>\<open>offboard_attitude_control.cpp\<close> and the position-control listing the result of
  \<^verbatim>\<open>start()\<close> and, where it is called, of \<^verbatim>\<open>stop()\<close> is surfaced as a value: the
  \<^verbatim>\<open>offb_ctrl_*\<close> function returns true exactly when every handshake it made
  succeeded, it never leaves through \<^verbatim>\<open>exit\<close>, and \<^verbatim>\<open>main\<close> returns 1 on a failed
  handshake.  In \<^verbatim>\<open>offboard_velocity.cpp\<close> a failed \<^verbatim>\<open>start()\<close> ends the process
  with \<^verbatim>\<open>exit(EXIT_FAILURE)\<close> inside \<^verbatim>\<open>offb_ctrl_attitude\<close>.
\<close>

theorem offboard_handshake_failure_surfaces:
  "snd (offb_ctrl_ned_working fp e)
     = Return (start_result e = OffboardSuccess \<and> stop_result e = OffboardSuccess)
   \<and> snd (offb_ctrl_body_working e)
     = Return (start_result e = OffboardSuccess \<and> stop_result e = OffboardSuccess)
   \<and> snd (offb_ctrl_attitude_working e) = Return (start_result e = OffboardSuccess)
   \<and> snd (offb_ctrl_attitude_control e) = Return (start_result e = OffboardSuccess)
   \<and> snd (offb_ctrl_ned_position e)
     = Return (start_result e = OffboardSuccess \<and> stop_result e = OffboardSuccess)
   \<and> snd (offb_ctrl_body_position e)
     = Return (start_result e = OffboardSuccess \<and> stop_result e = OffboardSuccess)
   \<and> snd (offb_ctrl_attitude_position e)
     = Return (start_result e = OffboardSuccess \<and> stop_result e = OffboardSuccess)
   \<and> (start_result e \<noteq> OffboardSuccess \<longrightarrow>
        snd (main_working fuel e bin_name args) = Return 1
        \<and> snd (main_attitude_control e bin_name args) = Return 1
        \<and> snd (main_position fuel e bin_name args) = Return 1)
   \<and> (stop_result e \<noteq> OffboardSuccess \<longrightarrow> snd (main_position fuel e bin_name args) = Return 1)
   \<and> (start_result e \<noteq> OffboardSuccess \<longrightarrow>
        snd (offb_ctrl_attitude_velocity e) = Exit EXIT_FAILURE)
   \<and> (start_result e \<noteq> OffboardSuccess
        \<and> OffboardStart \<in> set (fst (main_velocity e bin_name args))
        \<longrightarrow> snd (main_velocity e bin_name args) = Exit EXIT_FAILURE)"
proof -
  have w: "start_result e \<noteq> OffboardSuccess \<longrightarrow>
      snd (main_working fuel e bin_name args) = Return 1"
    by (simp add: main_working_def Let_def snd_emit snd_ret snd_call snd_get_system offb_outcomes
      on_landed_state_eq split: option.splits)
  have c: "start_result e \<noteq> OffboardSuccess \<longrightarrow>
      snd (main_attitude_control e bin_name args) = Return 1"
    by (simp add: main_attitude_control_def Let_def snd_emit snd_ret snd_call snd_get_system
        offb_outcomes split: option.splits)
  have p: "start_result e \<noteq> OffboardSuccess \<or> stop_result e \<noteq> OffboardSuccess \<longrightarrow>
      snd (main_position fuel e bin_name args) = Return 1"
    by (auto simp add: main_position_def Let_def snd_emit snd_ret snd_call snd_get_system
        offb_outcomes split: option.splits)
  have v: "start_result e \<noteq> OffboardSuccess
        \<and> OffboardStart \<in> set (fst (main_velocity e bin_name args))
        \<longrightarrow> snd (main_velocity e bin_name args) = Exit EXIT_FAILURE"
    by (auto simp: main_velocity_def wait_until_discover_eq run_defs usage_velocity_def
          offb_velocity_outcome split: outcome.splits if_splits)
  from w c p v show ?thesis
    by (simp add: offb_outcomes offb_velocity_outcome)
qed

theorem offboard_handshake_failure_surfaces_witness:
  "start_result (nominal_env\<lparr>start_result := OffboardFailure 1\<rparr>) \<noteq> OffboardSuccess
   \<and> snd (offb_ctrl_ned_working rational_float_ops (nominal_env\<lparr>start_result := OffboardFailure 1\<rparr>))
       = Return False
   \<and> snd (main_working 1 (nominal_env\<lparr>start_result := OffboardFailure 1\<rparr>)
            ''offboard'' [''udp://:14540'']) = Return 1
   \<and> snd (main_attitude_control (nominal_env\<lparr>start_result := OffboardFailure 1\<rparr>)
            ''offboard'' [''udp://:14540'']) = Return 1
   \<and> snd (main_position 1 (nominal_env\<lparr>start_result := OffboardFailure 1\<rparr>)
            ''offboard'' [''udp://:14540'']) = Return 1
   \<and> OffboardStart \<in> set (fst (main_velocity (nominal_env\<lparr>start_result := OffboardFailure 1\<rparr>)
            ''offboard'' [''udp://:14540'']))
   \<and> snd (main_velocity (nominal_env\<lparr>start_result := OffboardFailure 1\<rparr>)
            ''offboard'' [''udp://:14540'']) = Exit EXIT_FAILURE"
proof -
  let ?e = "nominal_env\<lparr>start_result := OffboardFailure 1\<rparr>"
  have h: "start_result ?e \<noteq> OffboardSuccess"
    by (simp add: nominal_env_def)
  have r: "OffboardStart \<in> set (fst (main_velocity ?e ''offboard'' [''udp://:14540'']))"
    by (simp add: main_velocity_def wait_until_discover_eq offb_ctrl_attitude_velocity_def
        offboard_error_exit_def offboard_log_def run_defs nominal_env_def)
  from offboard_handshake_failure_surfaces
    [of rational_float_ops ?e 1 "''offboard''" "[''udp://:14540'']"] h r
  show ?thesis by simp
qed

text \<open>
  C7, as stated, fails: in \<^verbatim>\<open>offboard_velocity.cpp\<close> the discovery callback tests
  \<^verbatim>\<open>is_connected()\<close>, and when the test fails nothing fulfils the promise;
  \<^verbatim>\<open>discover_future.wait()\<close> has no timeout, so the process does not terminate.
\<close>

theorem discovery_failure_blocks:
  "snd (main_velocity (nominal_env\<lparr>new_system_is_connected := [False]\<rparr>)
          ''offboard'' [''udp://:14540'']) = Hang"
  by (simp add: main_velocity_def wait_until_discover_eq run_defs nominal_env_def)

text \<open>
  C7, amended.  The checks are single-shot and end the process with a failure
  status: when the connection, \<^verbatim>\<open>get_system\<close>, arming, take-off (or the wait for
  \<^verbatim>\<open>InAir\<close>), the offboard start or stop, or landing fails, \<^verbatim>\<open>main\<close> returns 1
  (in \<^verbatim>\<open>offboard_velocity.cpp\<close> a failed offboard start calls
  \<^verbatim>\<open>exit(EXIT_FAILURE)\<close>); it returns 0 when everything succeeded; and no run
  makes one of the checked calls twice.  The three \<^verbatim>\<open>*_error_exit\<close> helpers of
  \<^verbatim>\<open>offboard_velocity.cpp\<close> leave through \<^verbatim>\<open>exit(EXIT_FAILURE)\<close> on any result
  other than \<^verbatim>\<open>Success\<close> and return otherwise.  The exception is discovery in
  \<^verbatim>\<open>offboard_velocity.cpp\<close>: \<^verbatim>\<open>wait_until_discover\<close> waits without a timeout, so
  when no connected system is reported the process blocks instead of terminating.
  What is said of the exit status of \<^verbatim>\<open>offboard_velocity.cpp\<close> after discovery is
  said of the runs in which exactly one discovery callback sees a connected system.
\<close>

theorem checked_failures_end_main_without_retry:
  "snd (main_telemetry_health e bin_name args)
     = Return (if length args = 1 \<and> connection_result e = ConnectionSuccess
                  \<and> True \<in> set (new_system_has_autopilot e) then 0 else 1)
   \<and> snd (main_read_blocking e bin_name args)
     = Return (if length args = 1 \<and> connection_result e = ConnectionSuccess
                  \<and> True \<in> set (new_system_has_autopilot e) then 0 else 1)
   \<and> snd (main_vision e bin_name args)
     = Return (if length args = 1 \<and> connection_result e = ConnectionSuccess
                  \<and> True \<in> set (new_system_has_autopilot e) then 0 else 1)
   \<and> snd (main_attitude_control e bin_name args)
     = Return (if length args = 1 \<and> connection_result e = ConnectionSuccess
                  \<and> True \<in> set (new_system_has_autopilot e)
                  \<and> arm_result e = ActionSuccess \<and> start_result e = OffboardSuccess
               then 0 else 1)
   \<and> (\<not> (length args = 1 \<and> connection_result e = ConnectionSuccess
          \<and> True \<in> set (new_system_has_autopilot e)
          \<and> arm_result e = ActionSuccess \<and> takeoff_result e = ActionSuccess
          \<and> InAir \<in> set (landed_states e)
          \<and> start_result e = OffboardSuccess \<and> land_result e = ActionSuccess)
       \<longrightarrow> snd (main_working fuel e bin_name args) = Return 1)
   \<and> (length args = 1 \<and> connection_result e = ConnectionSuccess
          \<and> True \<in> set (new_system_has_autopilot e)
          \<and> arm_result e = ActionSuccess \<and> takeoff_result e = ActionSuccess
          \<and> InAir \<in> set (landed_states e)
          \<and> start_result e = OffboardSuccess \<and> land_result e = ActionSuccess
          \<and> \<not> in_air_poll e n \<and> n < fuel
       \<longrightarrow> snd (main_working fuel e bin_name args) = Return 0)
   \<and> (\<not> (length args = 1 \<and> connection_result e = ConnectionSuccess
          \<and> True \<in> set (new_system_has_autopilot e)
          \<and> arm_result e = ActionSuccess \<and> takeoff_result e = ActionSuccess
          \<and> start_result e = OffboardSuccess \<and> stop_result e = OffboardSuccess
          \<and> land_result e = ActionSuccess)
       \<longrightarrow> snd (main_position fuel e bin_name args) = Return 1)
   \<and> (length args = 1 \<and> connection_result e = ConnectionSuccess
          \<and> True \<in> set (new_system_has_autopilot e)
          \<and> arm_result e = ActionSuccess \<and> takeoff_result e = ActionSuccess
          \<and> start_result e = OffboardSuccess \<and> stop_result e = OffboardSuccess
          \<and> land_result e = ActionSuccess
          \<and> \<not> in_air_poll e n \<and> n < fuel
       \<longrightarrow> snd (main_position fuel e bin_name args) = Return 0)
   \<and> (length args \<noteq> 1 \<or> connection_result e \<noteq> ConnectionSuccess
       \<longrightarrow> snd (main_velocity e bin_name args) = Return 1)
   \<and> (length args = 1 \<and> connection_result e = ConnectionSuccess
          \<and> True \<notin> set (new_system_is_connected e)
       \<longrightarrow> snd (main_velocity e bin_name args) = Hang)
   \<and> (length args = 1 \<and> connection_result e = ConnectionSuccess
          \<and> count_list (new_system_is_connected e) True = 1
       \<longrightarrow> snd (main_velocity e bin_name args)
            = (if arm_result e \<noteq> ActionSuccess then Return 1
               else if start_result e \<noteq> OffboardSuccess then Exit EXIT_FAILURE
               else Return EXIT_SUCCESS))
   \<and> no_retry (fst (main_velocity e bin_name args))
   \<and> no_retry (fst (main_working fuel e bin_name args))
   \<and> no_retry (fst (main_attitude_control e bin_name args))
   \<and> no_retry (fst (main_telemetry_health e bin_name args))
   \<and> no_retry (fst (main_read_blocking e bin_name args))
   \<and> no_retry (fst (main_vision e bin_name args))
   \<and> no_retry (fst (main_position fuel e bin_name args))
   \<and> snd (action_error_exit ar message)
     = (if ar = ActionSuccess then Return () else Exit EXIT_FAILURE)
   \<and> snd (offboard_error_exit r message)
     = (if r = OffboardSuccess then Return () else Exit EXIT_FAILURE)
   \<and> snd (connection_error_exit cr message)
     = (if cr = ConnectionSuccess then Return () else Exit EXIT_FAILURE)"
proof -
  have w1: "\<not> (length args = 1 \<and> connection_result e = ConnectionSuccess
          \<and> True \<in> set (new_system_has_autopilot e)
          \<and> arm_result e = ActionSuccess \<and> takeoff_result e = ActionSuccess
          \<and> InAir \<in> set (landed_states e)
          \<and> start_result e = OffboardSuccess \<and> land_result e = ActionSuccess)
       \<longrightarrow> snd (main_working fuel e bin_name args) = Return 1"
    using outcome_working(1)[of args e fuel bin_name] by blast
  have w0: "length args = 1 \<and> connection_result e = ConnectionSuccess
          \<and> True \<in> set (new_system_has_autopilot e)
          \<and> arm_result e = ActionSuccess \<and> takeoff_result e = ActionSuccess
          \<and> InAir \<in> set (landed_states e)
          \<and> start_result e = OffboardSuccess \<and> land_result e = ActionSuccess
          \<and> \<not> in_air_poll e n \<and> n < fuel
       \<longrightarrow> snd (main_working fuel e bin_name args) = Return 0"
    using outcome_working(2)[of args e n fuel bin_name] by blast
  have p1: "\<not> (length args = 1 \<and> connection_result e = ConnectionSuccess
          \<and> True \<in> set (new_system_has_autopilot e)
          \<and> arm_result e = ActionSuccess \<and> takeoff_result e = ActionSuccess
          \<and> start_result e = OffboardSuccess \<and> stop_result e = OffboardSuccess
          \<and> land_result e = ActionSuccess)
       \<longrightarrow> snd (main_position fuel e bin_name args) = Return 1"
    using outcome_position(1)[of args e fuel bin_name] by blast
  have p0: "length args = 1 \<and> connection_result e = ConnectionSuccess
          \<and> True \<in> set (new_system_has_autopilot e)
          \<and> arm_result e = ActionSuccess \<and> takeoff_result e = ActionSuccess
          \<and> start_result e = OffboardSuccess \<and> stop_result e = OffboardSuccess
          \<and> land_result e = ActionSuccess
          \<and> \<not> in_air_poll e n \<and> n < fuel
       \<longrightarrow> snd (main_position fuel e bin_name args) = Return 0"
    using outcome_position(2)[of args e n fuel bin_name] by blast
  have v1: "length args \<noteq> 1 \<or> connection_result e \<noteq> ConnectionSuccess
       \<longrightarrow> snd (main_velocity e bin_name args) = Return 1"
    by (simp add: outcome_velocity)
  have v2: "length args = 1 \<and> connection_result e = ConnectionSuccess
          \<and> True \<notin> set (new_system_is_connected e)
       \<longrightarrow> snd (main_velocity e bin_name args) = Hang"
    by (simp add: outcome_velocity)
  have v3: "length args = 1 \<and> connection_result e = ConnectionSuccess
          \<and> count_list (new_system_is_connected e) True = 1
       \<longrightarrow> snd (main_velocity e bin_name args)
            = (if arm_result e \<noteq> ActionSuccess then Return 1
               else if start_result e \<noteq> OffboardSuccess then Exit EXIT_FAILURE
               else Return EXIT_SUCCESS)"
    using count_list_0_iff[of "new_system_is_connected e" True]
    by (auto simp: outcome_velocity)
  from w1 w0 p1 p0 outcome_telemetry[of e bin_name args] outcome_attitude_control[of e bin_name args]
    v1 v2 v3 no_retry_velocity[of e bin_name args]
    no_retry_working[of fuel e bin_name args] no_retry_attitude_control[of e bin_name args]
    no_retry_telemetry[of e bin_name args] no_retry_position[of fuel e bin_name args]
    error_exit_outcomes(1)[of ar message] error_exit_outcomes(2)[of r message]
    error_exit_outcomes(3)[of cr message]
  show ?thesis by (intro conjI) assumption+
qed

theorem checked_failures_end_main_without_retry_witness:
  "snd (main_working 1 (nominal_env\<lparr>takeoff_result := ActionFailure 1\<rparr>)
          ''offboard'' [''udp://:14540'']) = Return 1
   \<and> snd (main_working 1 nominal_env ''offboard'' [''udp://:14540'']) = Return 0
   \<and> snd (main_position 3 (nominal_env\<lparr>in_air_poll := (\<lambda>i. i < 2)\<rparr>)
          ''offboard'' [''udp://:14540'']) = Return 0
   \<and> count_list (new_system_is_connected (nominal_env\<lparr>start_result := OffboardFailure 1\<rparr>)) True
       = 1
   \<and> snd (main_velocity (nominal_env\<lparr>start_result := OffboardFailure 1\<rparr>)
          ''offboard'' [''udp://:14540'']) = Exit EXIT_FAILURE
   \<and> snd (main_velocity (nominal_env\<lparr>new_system_is_connected := [False, False]\<rparr>)
          ''offboard'' [''udp://:14540'']) = Hang
   \<and> snd (main_read_blocking (nominal_env\<lparr>new_system_has_autopilot := []\<rparr>)
          ''offboard'' [''udp://:14540'']) = Return 1
   \<and> no_retry (fst (main_working 1 nominal_env ''offboard'' [''udp://:14540'']))
   \<and> \<not> no_retry [ActionArm, ActionArm]"
proof -
  have n: "\<not> no_retry [ActionArm, ActionArm]"
    by (simp add: no_retry_def)
  from checked_failures_end_main_without_retry
      [of "nominal_env\<lparr>takeoff_result := ActionFailure 1\<rparr>" "''offboard''" "[''udp://:14540'']"
          1 0]
    checked_failures_end_main_without_retry
      [of nominal_env "''offboard''" "[''udp://:14540'']" 1 0]
    checked_failures_end_main_without_retry
      [of "nominal_env\<lparr>in_air_poll := (\<lambda>i. i < 2)\<rparr>" "''offboard''" "[''udp://:14540'']" 3 2]
    checked_failures_end_main_without_retry
      [of "nominal_env\<lparr>start_result := OffboardFailure 1\<rparr>" "''offboard''" "[''udp://:14540'']"]
    checked_failures_end_main_without_retry
      [of "nominal_env\<lparr>new_system_has_autopilot := []\<rparr>" "''offboard''" "[''udp://:14540'']"]
    checked_failures_end_main_without_retry
      [of "nominal_env\<lparr>new_system_is_connected := [False, False]\<rparr>" "''offboard''"
          "[''udp://:14540'']"]
    n
  show ?thesis by (simp add: nominal_env_def)
qed

text \<open>
  C8, as stated, fails: \<^verbatim>\<open>main\<close> of \<^verbatim>\<open>offboard_velocity.cpp\<close> declares its
  \<^verbatim>\<open>Mavsdk\<close> object before it tests \<^verbatim>\<open>argc\<close>, so started without a connection
  URL it has constructed the library object, an action other than printing the
  usage text, when it returns 1.
\<close>

theorem mavsdk_constructed_before_usage:
  "snd (main_velocity nominal_env ''offboard'' []) = Return 1
   \<and> hd (fst (main_velocity nominal_env ''offboard'' [])) = NewMavsdk
   \<and> calls (fst (main_velocity nominal_env ''offboard'' [])) = [NewMavsdk]"
  by (simp add: main_velocity_def run_defs usage_velocity_def calls_def)

text \<open>
  C8, amended.  Started with a number of arguments other than the one connection
  URL, every \<^verbatim>\<open>main\<close> prints the usage text and returns 1 without calling
  \<^verbatim>\<open>add_any_connection\<close> or any other library function.  In the files that share
  \<^verbatim>\<open>usage\<close> and in the position-control listing printing the usage text is the
  whole run; in \<^verbatim>\<open>offboard_velocity.cpp\<close> the local \<^verbatim>\<open>Mavsdk\<close> object has been
  constructed before, and that is the only other action.  The program name
  \<^verbatim>\<open>argv[0]\<close> is \<open>bin_name\<close>, the arguments after it are \<open>args\<close>, so \<^verbatim>\<open>argc\<close> is
  \<open>1 + length args\<close>.
\<close>

theorem main_usage_on_wrong_argc:
  assumes "length args \<noteq> 1"
  shows "main_working fuel e bin_name args = (usage bin_name, Return 1)
    \<and> main_attitude_control e bin_name args = (usage bin_name, Return 1)
    \<and> main_telemetry_health e bin_name args = (usage bin_name, Return 1)
    \<and> main_read_blocking e bin_name args = (usage bin_name, Return 1)
    \<and> main_vision e bin_name args = (usage bin_name, Return 1)
    \<and> main_position fuel e bin_name args = (usage bin_name, Return 1)
    \<and> main_velocity e bin_name args = (NewMavsdk # usage_velocity bin_name, Return 1)
    \<and> usage bin_name =
        [Print Cerr
          [Txt ''Usage : '', Txt bin_name, Txt '' <connection_url>\<newline>'',
           Txt ''Connection URL format should be :\<newline>'',
           Txt '' For TCP : tcp://[server_host][:server_port]\<newline>'',
           Txt '' For UDP : udp://[bind_host][:bind_port]\<newline>'',
           Txt '' For Serial : serial:///path/to/serial/dev[:baudrate]\<newline>'',
           Txt ''For example, to connect to the simulator use URL: udp://:14540\<newline>'']]
    \<and> usage_velocity bin_name =
        [Print Cout
          [Txt (CHR 0x1B # ''[0m''), Txt ''Usage : '', Txt bin_name, Txt '' <connection_url>'',
           Endl,
           Txt ''Connection URL format should be :'', Endl,
           Txt '' For TCP : tcp://[server_host][:server_port]'', Endl,
           Txt '' For UDP : udp://[bind_host][:bind_port]'', Endl,
           Txt '' For Serial : serial:///path/to/serial/dev[:baudrate]'', Endl,
           Txt ''For example, to connect to the simulator use URL: udp://:14540'', Endl]]
    \<and> calls (fst (main_working fuel e bin_name args)) = []
    \<and> calls (fst (main_attitude_control e bin_name args)) = []
    \<and> calls (fst (main_telemetry_health e bin_name args)) = []
    \<and> calls (fst (main_read_blocking e bin_name args)) = []
    \<and> calls (fst (main_vision e bin_name args)) = []
    \<and> calls (fst (main_position fuel e bin_name args)) = []
    \<and> calls (fst (main_velocity e bin_name args)) = [NewMavsdk]"
  using assms
  by (simp add: main_working_def main_attitude_control_def main_telemetry_health_def
      main_read_blocking_def main_vision_def main_position_def main_velocity_def run_defs
      usage_def usage_velocity_def NORMAL_CONSOLE_TEXT_def calls_def)

theorem main_usage_on_wrong_argc_witness:
  "length ([] :: string list) \<noteq> 1
   \<and> length [''udp://:14540'', ''extra''] \<noteq> 1
   \<and> main_working 0 nominal_env ''offboard'' [] = (usage ''offboard'', Return 1)
   \<and> calls (fst (main_working 0 nominal_env ''offboard'' [])) = []
   \<and> main_read_blocking nominal_env ''offboard'' [''udp://:14540'', ''extra'']
       = (usage ''offboard'', Return 1)
   \<and> main_velocity nominal_env ''offboard'' []
       = (NewMavsdk # usage_velocity ''offboard'', Return 1)
   \<and> calls (fst (main_velocity nominal_env ''offboard'' [''udp://:14540'', ''extra'']))
       = [NewMavsdk]
   \<and> calls (fst (main_read_blocking nominal_env ''offboard'' [''udp://:14540''])) \<noteq> []"
proof -
  have h: "length ([] :: string list) \<noteq> 1" "length [''udp://:14540'', ''extra''] \<noteq> 1"
    by simp_all
  have r: "calls (fst (main_read_blocking nominal_env ''offboard'' [''udp://:14540''])) \<noteq> []"
    by (simp add: main_read_blocking_def get_system_eq run_defs calls_def nominal_env_def)
  from main_usage_on_wrong_argc[OF h(1), of 0 nominal_env "''offboard''"]
    main_usage_on_wrong_argc[OF h(2), of 0 nominal_env "''offboard''"] h r
  show ?thesis by blast
qed

text \<open>
  C9.  When no new-system callback sees an autopilot before the 3 second wait is
  over, \<^verbatim>\<open>get_system\<close> returns the null pointer, and every \<^verbatim>\<open>main\<close> that uses
  \<^verbatim>\<open>get_system\<close> returns 1 without instantiating a plugin on it.
\<close>

theorem get_system_null_is_checked:
  assumes "True \<notin> set (new_system_has_autopilot e)"
  shows "snd (get_system e) = Return None
    \<and> snd (main_working fuel e bin_name args) = Return 1
    \<and> \<not> (\<exists>ev \<in> set (fst (main_working fuel e bin_name args)). is_plugin_new ev)
    \<and> snd (main_attitude_control e bin_name args) = Return 1
    \<and> \<not> (\<exists>ev \<in> set (fst (main_attitude_control e bin_name args)). is_plugin_new ev)
    \<and> snd (main_telemetry_health e bin_name args) = Return 1
    \<and> \<not> (\<exists>ev \<in> set (fst (main_telemetry_health e bin_name args)). is_plugin_new ev)
    \<and> snd (main_read_blocking e bin_name args) = Return 1
    \<and> \<not> (\<exists>ev \<in> set (fst (main_read_blocking e bin_name args)). is_plugin_new ev)
    \<and> snd (main_vision e bin_name args) = Return 1
    \<and> \<not> (\<exists>ev \<in> set (fst (main_vision e bin_name args)). is_plugin_new ev)
    \<and> snd (main_position fuel e bin_name args) = Return 1
    \<and> \<not> (\<exists>ev \<in> set (fst (main_position fuel e bin_name args)). is_plugin_new ev)"
  using assms
  by (simp add: main_working_def main_attitude_control_def main_telemetry_health_def
      main_read_blocking_def main_vision_def main_position_def get_system_eq run_defs usage_def)

theorem get_system_null_is_checked_witness:
  "True \<notin> set (new_system_has_autopilot (nominal_env\<lparr>new_system_has_autopilot := [False, False]\<rparr>))
   \<and> snd (get_system (nominal_env\<lparr>new_system_has_autopilot := [False, False]\<rparr>)) = Return None
   \<and> snd (main_vision (nominal_env\<lparr>new_system_has_autopilot := [False, False]\<rparr>)
            ''offboard_vision'' [''udp://:14540'']) = Return 1
   \<and> \<not> (\<exists>ev \<in> set (fst (main_vision (nominal_env\<lparr>new_system_has_autopilot := [False, False]\<rparr>)
            ''offboard_vision'' [''udp://:14540''])). is_plugin_new ev)
   \<and> (\<exists>ev \<in> set (fst (main_telemetry_health nominal_env
            ''offboard_health'' [''udp://:14540''])). is_plugin_new ev)"
proof -
  let ?e = "nominal_env\<lparr>new_system_has_autopilot := [False, False]\<rparr>"
  have h: "True \<notin> set (new_system_has_autopilot ?e)"
    by (simp add: nominal_env_def)
  have t: "\<exists>ev \<in> set (fst (main_telemetry_health nominal_env
            ''offboard_health'' [''udp://:14540''])). is_plugin_new ev"
    by (simp add: main_telemetry_health_def get_system_eq run_defs nominal_env_def)
  from get_system_null_is_checked[OF h, of 0 "''offboard_vision''" "[''udp://:14540'']"] h t
  show ?thesis by simp
qed

text \<open>
  C10.  \<^verbatim>\<open>offb_ctrl_attitude\<close> of \<^verbatim>\<open>offboard_velocity.cpp\<close> never returns false: it
  returns true when the start succeeded and leaves through \<^verbatim>\<open>exit(EXIT_FAILURE)\<close>
  otherwise.  So the test \<^verbatim>\<open>ret == false\<close> of \<^verbatim>\<open>main\<close> never holds: whenever
  \<^verbatim>\<open>main\<close> returns the failure code, \<^verbatim>\<open>offb_ctrl_attitude\<close> has not been called
  (offboard mode was never started).
\<close>

theorem offb_ctrl_attitude_velocity_never_false:
  "snd (offb_ctrl_attitude_velocity e) \<noteq> Return False
   \<and> (start_result e = OffboardSuccess \<longrightarrow> snd (offb_ctrl_attitude_velocity e) = Return True)
   \<and> (start_result e \<noteq> OffboardSuccess \<longrightarrow>
        snd (offb_ctrl_attitude_velocity e) = Exit EXIT_FAILURE)
   \<and> (snd (main_velocity e bin_name args) = Return EXIT_FAILURE \<longrightarrow>
        OffboardStart \<notin> set (fst (main_velocity e bin_name args)))"
proof -
  have a: "start_result e = OffboardSuccess \<longrightarrow> snd (offb_ctrl_attitude_velocity e) = Return True"
    by (simp add: offb_velocity_outcome)
  have b: "start_result e \<noteq> OffboardSuccess \<longrightarrow>
        snd (offb_ctrl_attitude_velocity e) = Exit EXIT_FAILURE"
    by (simp add: offb_velocity_outcome)
  have c: "snd (offb_ctrl_attitude_velocity e) \<noteq> Return False"
    by (simp add: offb_velocity_outcome)
  have d: "snd (main_velocity e bin_name args) = Return EXIT_FAILURE \<longrightarrow>
        OffboardStart \<notin> set (fst (main_velocity e bin_name args))"
    using a b
    by (cases "start_result e = OffboardSuccess")
       (auto simp: main_velocity_def wait_until_discover_eq run_defs usage_velocity_def
          EXIT_FAILURE_def EXIT_SUCCESS_def split: outcome.splits)
  from a b c d show ?thesis by blast
qed

theorem offb_ctrl_attitude_velocity_never_false_witness:
  "start_result (nominal_env\<lparr>start_result := OffboardFailure 1\<rparr>) \<noteq> OffboardSuccess
   \<and> snd (offb_ctrl_attitude_velocity (nominal_env\<lparr>start_result := OffboardFailure 1\<rparr>))
       = Exit EXIT_FAILURE
   \<and> start_result nominal_env = OffboardSuccess
   \<and> snd (offb_ctrl_attitude_velocity nominal_env) = Return True
   \<and> snd (main_velocity (nominal_env\<lparr>arm_result := ActionFailure 1\<rparr>)
            ''offboard'' [''udp://:14540'']) = Return EXIT_FAILURE
   \<and> OffboardStart \<notin> set (fst (main_velocity (nominal_env\<lparr>arm_result := ActionFailure 1\<rparr>)
            ''offboard'' [''udp://:14540'']))"
proof -
  have h: "start_result (nominal_env\<lparr>start_result := OffboardFailure 1\<rparr>) \<noteq> OffboardSuccess"
    "start_result nominal_env = OffboardSuccess"
    by (simp_all add: nominal_env_def)
  have r: "snd (main_velocity (nominal_env\<lparr>arm_result := ActionFailure 1\<rparr>)
            ''offboard'' [''udp://:14540'']) = Return EXIT_FAILURE"
    by (simp add: main_velocity_def wait_until_discover_eq run_defs nominal_env_def
        EXIT_FAILURE_def)
  from offb_ctrl_attitude_velocity_never_false
      [of "nominal_env\<lparr>start_result := OffboardFailure 1\<rparr>"]
    offb_ctrl_attitude_velocity_never_false[of nominal_env]
    offb_ctrl_attitude_velocity_never_false
      [of "nominal_env\<lparr>arm_result := ActionFailure 1\<rparr>" "''offboard''" "[''udp://:14540'']"]
    h r
  show ?thesis by simp
qed

end
